theory Spec2Isabelle
  imports Complex_Main "HOL-Library.Sublist"
begin

section \<open>Python values and string helpers\<close>

text \<open>
  Values decoded from JSON (and the Python values the bridge functions receive) are
  modelled by one datatype. Python's \<open>None\<close> and JSON \<open>null\<close> are both \<open>JNull\<close>.
  A float carries its rational value; the non-standard literals NaN and Infinity are
  outside the model. A JSON object is the list of its members in document order;
  \<open>json.loads\<close> keeps the last of several members with one key.
\<close>

datatype json =
    JNull
  | JBool bool
  | JInt int
  | JFloat rat
  | JStr string
  | JList "json list"
  | JObj "(string \<times> json) list"

text \<open>The exceptions the modelled code can raise; only their presence decides a branch.\<close>

datatype exn =
    TypeError
  | ValueError
  | AttributeError
  | IndexError
  | OSError
  | JSONDecodeError

text \<open>Python truthiness, as used by \<open>if not x\<close>.\<close>

fun truthy :: "json \<Rightarrow> bool" where
  "truthy JNull = False"
| "truthy (JBool b) = b"
| "truthy (JInt n) = (n \<noteq> 0)"
| "truthy (JFloat r) = (r \<noteq> 0)"
| "truthy (JStr s) = (s \<noteq> [])"
| "truthy (JList xs) = (xs \<noteq> [])"
| "truthy (JObj kvs) = (kvs \<noteq> [])"

text \<open>\<open>d.get(k)\<close> and \<open>d.get(k, default)\<close> on a decoded object; on any other value
  the attribute lookup raises.\<close>

definition dict_lookup :: "(string \<times> json) list \<Rightarrow> string \<Rightarrow> json option" where
  "dict_lookup kvs k = map_of (rev kvs) k"

definition py_get_default :: "json \<Rightarrow> string \<Rightarrow> json \<Rightarrow> exn + json" where
  "py_get_default v k dflt =
     (case v of
        JObj kvs \<Rightarrow> (case dict_lookup kvs k of None \<Rightarrow> Inr dflt | Some x \<Rightarrow> Inr x)
      | _ \<Rightarrow> Inl AttributeError)"

definition py_get :: "json \<Rightarrow> string \<Rightarrow> exn + json" where
  "py_get v k = py_get_default v k JNull"

text \<open>\<open>str.startswith\<close> and \<open>str.endswith\<close>.\<close>

definition startswith :: "string \<Rightarrow> string \<Rightarrow> bool" where
  "startswith s p = (take (length p) s = p)"

definition endswith :: "string \<Rightarrow> string \<Rightarrow> bool" where
  "endswith s p = (length p \<le> length s \<and> drop (length s - length p) s = p)"

text \<open>Decimal rendering of a non-negative index, as an f-string \<open>{i}\<close> produces it.\<close>

definition digit_char :: "nat \<Rightarrow> char" where
  "digit_char d = char_of (48 + d)"

fun str_of_nat_fuel :: "nat \<Rightarrow> nat \<Rightarrow> string" where
  "str_of_nat_fuel 0 n = [digit_char (n mod 10)]"
| "str_of_nat_fuel (Suc f) n =
     (if n < 10 then [digit_char n]
      else str_of_nat_fuel f (n div 10) @ [digit_char (n mod 10)])"

definition str_of_nat :: "nat \<Rightarrow> string" where
  "str_of_nat n = str_of_nat_fuel n n"

section \<open>The host (OBS) as seen by the scripts\<close>

text \<open>
  Script settings are the host's key/value store: \<open>obs_data_get_string\<close> gives the
  empty string and \<open>obs_data_get_int\<close> gives 0 for a key that is not set.
\<close>

record settings =
  strs :: "string \<Rightarrow> string"
  ints :: "string \<Rightarrow> int"

definition obs_data_get_string :: "settings \<Rightarrow> string \<Rightarrow> string" where
  "obs_data_get_string st k = strs st k"

definition obs_data_get_int :: "settings \<Rightarrow> string \<Rightarrow> int" where
  "obs_data_get_int st k = ints st k"

definition obs_data_set_string :: "settings \<Rightarrow> string \<Rightarrow> string \<Rightarrow> settings" where
  "obs_data_set_string st k v = st\<lparr>strs := (strs st)(k := v)\<rparr>"

section \<open>osc_io.py\<close>

text \<open>
  An \<open>OSCClient\<close>; \<open>udp_client\<close> tells whether \<open>_udp_client\<close> holds a socket
  (it is \<open>None\<close> when ip or port is empty or the constructor raised).
\<close>

record osc_client =
  ip :: string
  port :: int
  browser_source :: string
  osc_address :: string
  event_name :: string
  udp_client :: bool

text \<open>Arguments of an inbound OSC message, as python-osc decodes them.\<close>

datatype osc_arg =
    OInt int
  | OFloat rat
  | OStr string
  | OBool bool
  | ONil
  | OBlob "nat list"

text \<open>\<open>json.dumps\<close> raises on a \<open>bytes\<close> value (an OSC blob).\<close>

fun json_serializable :: "osc_arg \<Rightarrow> bool" where
  "json_serializable (OBlob _) = False"
| "json_serializable _ = True"

text \<open>What the scripts do to the outside world, in the order they do it.\<close>

datatype effect =
    JsEventOsc string string string "osc_arg list"
      \<comment> \<open>browser source, eventName, and the \<open>{address, arguments}\<close> payload\<close>
  | JsEventMidi string string nat nat nat "nat list"
      \<comment> \<open>browser source, eventName, status, note, velocity, data\<close>
  | UdpSend string int json json
      \<comment> \<open>ip, port, and the address and arguments handed to \<open>send_message\<close>\<close>
  | SourceRelease string
  | LogOscSendError string
  | LogBrowserError
  | PrintMidiIn nat nat nat

text \<open>Whether an effect is a datagram handed to the UDP socket.\<close>

fun is_udp_send :: "effect \<Rightarrow> bool" where
  "is_udp_send (UdpSend _ _ _ _) = True"
| "is_udp_send _ = False"

text \<open>\<open>OSCClient.__init__\<close>: \<open>mk_socket\<close> tells whether \<open>SimpleUDPClient(ip, port)\<close>
  returns (rather than raises).\<close>

definition OSCClient_init :: "(string \<Rightarrow> int \<Rightarrow> bool) \<Rightarrow> settings \<Rightarrow> nat \<Rightarrow> osc_client" where
  "OSCClient_init mk_socket st index =
     (let ip0 = obs_data_get_string st (''client_ip_'' @ str_of_nat index);
          port0 = obs_data_get_int st (''client_port_'' @ str_of_nat index);
          ev = obs_data_get_string st (''event_name_'' @ str_of_nat index)
      in \<lparr> ip = ip0,
           port = port0,
           browser_source = obs_data_get_string st (''browser_source_name_'' @ str_of_nat index),
           osc_address = obs_data_get_string st (''osc_address_'' @ str_of_nat index),
           event_name = (if ev \<noteq> [] then ev else ''osc_event_'' @ str_of_nat index),
           udp_client = (ip0 \<noteq> [] \<and> port0 \<noteq> 0 \<and> mk_socket ip0 port0) \<rparr>)"

text \<open>\<open>OSCClient.send\<close>: \<open>udp_ok\<close> tells whether \<open>send_message\<close> returns.\<close>

definition OSCClient_send :: "bool \<Rightarrow> osc_client \<Rightarrow> json \<Rightarrow> json \<Rightarrow> effect list" where
  "OSCClient_send udp_ok c address arguments =
     (if udp_client c then
        (if udp_ok then [UdpSend (ip c) (port c) address arguments]
         else [LogOscSendError (ip c)])
      else [])"

text \<open>\<open>OSCClient.matches\<close>.\<close>

definition matches :: "osc_client \<Rightarrow> string \<Rightarrow> bool" where
  "matches c address =
     (if osc_address c = [] then True else startswith address (osc_address c))"

text \<open>\<open>OSCClient.to_dict\<close>: the five entries of the dictionary, all of fixed type.\<close>

record client_dict =
  client_ip :: string
  client_port :: int
  dict_browser_source_name :: string
  dict_osc_address :: string
  dict_event_name :: string

definition to_dict :: "osc_client \<Rightarrow> client_dict" where
  "to_dict c =
     \<lparr> client_ip = ip c,
       client_port = port c,
       dict_browser_source_name = browser_source c,
       dict_osc_address = osc_address c,
       dict_event_name = event_name c \<rparr>"

text \<open>
  \<open>OSCManager\<close>: its client table, and the bridge \<open>obs.osc_manager\<close> it publishes
  (the snapshot of the table; its \<open>send\<close> entry is \<open>_bridge_send\<close> of the manager).
\<close>

record osc_manager =
  clients :: "osc_client list"

record osc_bridge =
  bridge_clients :: "client_dict list"

definition update_settings ::
  "(string \<Rightarrow> int \<Rightarrow> bool) \<Rightarrow> settings \<Rightarrow> osc_manager \<times> osc_bridge" where
  "update_settings mk_socket st =
     (let cs = map (OSCClient_init mk_socket st)
                 [0 ..< nat (obs_data_get_int st ''number_of_clients'')]
      in (\<lparr> clients = cs \<rparr>, \<lparr> bridge_clients = map to_dict cs \<rparr>))"

text \<open>\<open>next((c for c in cs if c.event_name == name), None)\<close>.\<close>

fun next_client :: "osc_client list \<Rightarrow> string \<Rightarrow> osc_client option" where
  "next_client [] name = None"
| "next_client (c # cs) name = (if event_name c = name then Some c else next_client cs name)"

definition bridge_send :: "bool \<Rightarrow> osc_manager \<Rightarrow> client_dict \<Rightarrow> json \<Rightarrow> json \<Rightarrow> effect list" where
  "bridge_send udp_ok m d address arguments =
     (case next_client (clients m) (dict_event_name d) of
        None \<Rightarrow> []
      | Some target \<Rightarrow> OSCClient_send udp_ok target address arguments)"

text \<open>\<open>_dispatch_to_obs\<close>: \<open>source_exists\<close> is the host's \<open>obs_get_source_by_name\<close>.\<close>

definition dispatch_to_obs ::
  "(string \<Rightarrow> bool) \<Rightarrow> osc_client \<Rightarrow> string \<Rightarrow> osc_arg list \<Rightarrow> exn + effect list" where
  "dispatch_to_obs source_exists c address args =
     (if source_exists (browser_source c) then
        (if list_all json_serializable args
         then Inr [JsEventOsc (browser_source c) (event_name c) address args,
                   SourceRelease (browser_source c)]
         else Inl TypeError)
      else Inr [])"

text \<open>
  The loop of \<open>_on_osc_received\<close> from table position \<open>i\<close> on. The result is the list of
  table positions for which \<open>_dispatch_to_obs\<close> was called, and what that call did.
\<close>

fun scan_clients ::
  "(string \<Rightarrow> bool) \<Rightarrow> nat \<Rightarrow> osc_client list \<Rightarrow> string \<Rightarrow> osc_arg list
     \<Rightarrow> nat list \<times> (exn + effect list)" where
  "scan_clients source_exists i [] address args = ([], Inr [])"
| "scan_clients source_exists i (c # cs) address args =
     (if matches c address
      then ([i], dispatch_to_obs source_exists c address args)
      else scan_clients source_exists (Suc i) cs address args)"

definition on_osc_received ::
  "(string \<Rightarrow> bool) \<Rightarrow> osc_manager \<Rightarrow> string \<Rightarrow> osc_arg list \<Rightarrow> nat list \<times> (exn + effect list)" where
  "on_osc_received source_exists m address args =
     scan_clients source_exists 0 (clients m) address args"

section \<open>http_server.py\<close>

subsection \<open>\<open>os.path\<close> on a POSIX host\<close>

text \<open>
  \<open>os.path.join\<close> of two components and \<open>os.path.normpath\<close>, as \<open>posixpath\<close>
  computes them. Both work on the text of a path only; neither looks at the file system.
\<close>

definition path_join :: "string \<Rightarrow> string \<Rightarrow> string" where
  "path_join a b =
     (if startswith b ''/'' then b
      else if a = [] \<or> endswith a ''/'' then a @ b
      else a @ ''/'' @ b)"

text \<open>\<open>path.split('/')\<close>.\<close>

fun split_sep :: "string \<Rightarrow> string list" where
  "split_sep [] = [[]]"
| "split_sep (c # cs) =
     (if c = CHR ''/'' then [] # split_sep cs
      else (case split_sep cs of [] \<Rightarrow> [[c]] | w # ws \<Rightarrow> (c # w) # ws))"

text \<open>\<open>'/'.join(comps)\<close>.\<close>

fun join_sep :: "string list \<Rightarrow> string" where
  "join_sep [] = []"
| "join_sep [c] = c"
| "join_sep (c # d # cs) = c @ ''/'' @ join_sep (d # cs)"

definition initial_slashes :: "string \<Rightarrow> nat" where
  "initial_slashes path =
     (if startswith path ''/'' then
        (if startswith path ''//'' \<and> \<not> startswith path ''///'' then 2 else 1)
      else 0)"

text \<open>One round of the loop over the components in \<open>normpath\<close> (\<open>cmp\<close> is the
  source's \<open>comp\<close>).\<close>

definition norm_step :: "nat \<Rightarrow> string list \<Rightarrow> string \<Rightarrow> string list" where
  "norm_step ini new_comps cmp =
     (if cmp = [] \<or> cmp = ''.'' then new_comps
      else if cmp \<noteq> ''..'' \<or> (ini = 0 \<and> new_comps = [])
              \<or> (new_comps \<noteq> [] \<and> last new_comps = ''..'')
        then new_comps @ [cmp]
      else if new_comps \<noteq> [] then butlast new_comps
      else new_comps)"

definition normpath :: "string \<Rightarrow> string" where
  "normpath path =
     (if path = [] then ''.''
      else (let ini = initial_slashes path;
                comps = foldl (norm_step ini) [] (split_sep path);
                p = replicate ini (CHR ''/'') @ join_sep comps
            in if p = [] then ''.'' else p))"

subsection \<open>The file system\<close>

text \<open>
  The file system is keyed by the path text handed to the operating system: \<open>files\<close>
  maps a path to the bytes stored there, \<open>dirs\<close> lists the directories, and \<open>denied\<close>
  stands for every reason the operating system refuses to create, open or list a path
  (permissions, a missing parent, a full disk). Each call the handler makes is recorded.
\<close>

record filesystem =
  files :: "(string \<times> string) list"
  dirs :: "string list"
  denied :: "string \<Rightarrow> bool"

datatype fs_call =
    Exists string
  | Listdir string
  | OpenRead string
  | Makedirs string
  | OpenWrite string

definition os_path_exists :: "filesystem \<Rightarrow> string \<Rightarrow> bool" where
  "os_path_exists fs p = (map_of (files fs) p \<noteq> None \<or> p \<in> set (dirs fs))"

definition os_makedirs :: "filesystem \<Rightarrow> string \<Rightarrow> exn + filesystem" where
  "os_makedirs fs p =
     (if denied fs p then Inl OSError else Inr (fs\<lparr>dirs := p # dirs fs\<rparr>))"

definition open_write :: "filesystem \<Rightarrow> string \<Rightarrow> string \<Rightarrow> exn + filesystem" where
  "open_write fs p content =
     (if denied fs p \<or> p \<in> set (dirs fs) then Inl OSError
      else Inr (fs\<lparr>files := (p, content) # files fs\<rparr>))"

definition open_read :: "filesystem \<Rightarrow> string \<Rightarrow> exn + string" where
  "open_read fs p =
     (if denied fs p then Inl OSError
      else (case map_of (files fs) p of None \<Rightarrow> Inl OSError | Some c \<Rightarrow> Inr c))"

text \<open>The name of \<open>k\<close> inside directory \<open>p\<close>, when \<open>k\<close> lies directly in it.\<close>

definition child_name :: "string \<Rightarrow> string \<Rightarrow> string option" where
  "child_name p k =
     (let pre = (if endswith p ''/'' then p else p @ ''/'');
          n = drop (length pre) k
      in if startswith k pre \<and> n \<noteq> [] \<and> CHR ''/'' \<notin> set n then Some n else None)"

definition os_listdir :: "filesystem \<Rightarrow> string \<Rightarrow> exn + string list" where
  "os_listdir fs p =
     (if denied fs p \<or> p \<notin> set (dirs fs) then Inl OSError
      else Inr (remdups (List.map_filter (child_name p) (map fst (files fs) @ dirs fs))))"

subsection \<open>Requests and responses\<close>

text \<open>
  A request as the handler sees it: the path component of the URL, the query string as
  decoded key/value pairs in order, and the body after \<open>json.loads\<close> (\<open>Inl\<close> when
  reading the length, decoding or parsing raised).
\<close>

record http_request =
  url_path :: string
  query :: "(string \<times> string) list"
  req_body :: "exn + json"

text \<open>
  Error texts: the literal messages of the source, the text of a caught exception, and
  the formatted messages whose argument is kept as it is.
\<close>

datatype message =
    Msg string
  | ExnText exn
  | ClientNotFound json
  | FailedCreateDir exn

datatype body =
    JsonBody json
  | ErrorBody message
  | RawBody string
  | ErrorPage

datatype reply =
    Reply nat body
  | StaticFile

text \<open>\<open>parse_qs(query).get(k, [None])[0]\<close>: blank values are dropped by \<open>parse_qs\<close>.\<close>

definition query_first :: "(string \<times> string) list \<Rightarrow> string \<Rightarrow> string option" where
  "query_first q k =
     (case filter (\<lambda>kv. fst kv = k \<and> snd kv \<noteq> []) q of
        [] \<Rightarrow> None
      | kv # _ \<Rightarrow> Some (snd kv))"

subsection \<open>Credentials\<close>

record wss_details =
  IP :: string
  PORT :: int
  PW :: json

definition WSS_DETAILS_initial :: wss_details where
  "WSS_DETAILS_initial = \<lparr> IP = ''localhost'', PORT = 4455, PW = JStr [] \<rparr>"

definition wss_json :: "wss_details \<Rightarrow> json" where
  "wss_json w = JObj [(''IP'', JStr (IP w)), (''PORT'', JInt (PORT w)), (''PW'', PW w)]"

text \<open>
  What the file behind \<open>source_path\<close> gives: it does not exist, opening or reading it
  raises, its text is not JSON, or it decodes to a value.
\<close>

datatype config_file =
    NoFile
  | OpenRaises exn
  | InvalidJson
  | Parsed json

datatype load_msg =
    FileNotFound
  | MissingKeys "string list"
  | Loaded
  | InvalidJSON
  | ErrorMsg exn

text \<open>\<open>k in v\<close> for a string \<open>k\<close>: key of a dict, member of a list, substring of a string;
  any other value is not iterable.\<close>

fun is_substr :: "string \<Rightarrow> string \<Rightarrow> bool" where
  "is_substr k [] = (k = [])"
| "is_substr k (c # cs) = (startswith (c # cs) k \<or> is_substr k cs)"

fun py_contains :: "json \<Rightarrow> string \<Rightarrow> exn + bool" where
  "py_contains (JObj kvs) k = Inr (map_of kvs k \<noteq> None)"
| "py_contains (JList xs) k = Inr (JStr k \<in> set xs)"
| "py_contains (JStr s) k = Inr (is_substr k s)"
| "py_contains _ k = Inl TypeError"

text \<open>\<open>int(v)\<close>; \<open>str_to_int\<close> is Python's parsing of a string as a decimal integer.\<close>

fun py_int :: "(string \<Rightarrow> int option) \<Rightarrow> json \<Rightarrow> exn + int" where
  "py_int str_to_int (JInt n) = Inr n"
| "py_int str_to_int (JBool b) = Inr (if b then 1 else 0)"
| "py_int str_to_int (JFloat r) = Inr (if 0 \<le> r then \<lfloor>r\<rfloor> else \<lceil>r\<rceil>)"
| "py_int str_to_int (JStr s) =
     (case str_to_int s of None \<Rightarrow> Inl ValueError | Some n \<Rightarrow> Inr n)"
| "py_int str_to_int _ = Inl TypeError"

text \<open>\<open>[k for k in required_keys if k not in source_data]\<close>.\<close>

definition missing_keys :: "json \<Rightarrow> exn + string list" where
  "missing_keys d =
     (case py_contains d ''server_password'' of
        Inl e \<Rightarrow> Inl e
      | Inr a \<Rightarrow>
          (case py_contains d ''server_port'' of
             Inl e \<Rightarrow> Inl e
           | Inr b \<Rightarrow> Inr ((if a then [] else [''server_password''])
                           @ (if b then [] else [''server_port'']))))"

text \<open>
  \<open>update_wss_details\<close>: the result pair and the global \<open>WSS_DETAILS\<close> afterwards. The
  three assignments happen in the order of the source, each before the next expression
  is evaluated.
\<close>

definition update_wss_details ::
  "(string \<Rightarrow> int option) \<Rightarrow> wss_details \<Rightarrow> string \<Rightarrow> config_file
     \<Rightarrow> (bool \<times> load_msg) \<times> wss_details" where
  "update_wss_details str_to_int w source_path f =
     (if source_path = [] \<or> f = NoFile then ((False, FileNotFound), w)
      else
        (case f of
           NoFile \<Rightarrow> ((False, FileNotFound), w)
         | OpenRaises e \<Rightarrow> ((False, ErrorMsg e), w)
         | InvalidJson \<Rightarrow> ((False, InvalidJSON), w)
         | Parsed source_data \<Rightarrow>
             (case missing_keys source_data of
                Inl e \<Rightarrow> ((False, ErrorMsg e), w)
              | Inr missing \<Rightarrow>
                  if missing \<noteq> [] then ((False, MissingKeys missing), w)
                  else
                    (case py_get_default source_data ''server_password'' (JStr []) of
                       Inl e \<Rightarrow> ((False, ErrorMsg e), w)
                     | Inr pw \<Rightarrow>
                         (let w1 = w\<lparr>PW := pw\<rparr> in
                          (case py_get_default source_data ''server_port'' (JInt 4455) of
                             Inl e \<Rightarrow> ((False, ErrorMsg e), w1)
                           | Inr p \<Rightarrow>
                               (case py_int str_to_int p of
                                  Inl e \<Rightarrow> ((False, ErrorMsg e), w1)
                                | Inr n \<Rightarrow>
                                    ((True, Loaded),
                                     w1\<lparr>PORT := n, IP := ''localhost''\<rparr>))))))))"

subsection \<open>\<open>OBSServerHandler.do_GET\<close>\<close>

definition get_file_list :: "string \<Rightarrow> filesystem \<Rightarrow> http_request \<Rightarrow> reply \<times> fs_call list" where
  "get_file_list SCRIPT_DIR fs rq =
     (case query_first (query rq) ''folder'' of
        None \<Rightarrow> (Reply 400 (ErrorBody (Msg ''Missing folder parameter'')), [])
      | Some folder_list \<Rightarrow>
          if folder_list = [] then (Reply 400 (ErrorBody (Msg ''Missing folder parameter'')), [])
          else
            (let target_dir = path_join SCRIPT_DIR folder_list in
             if \<not> startswith (normpath target_dir) SCRIPT_DIR
               then (Reply 403 (ErrorBody (Msg ''Access denied'')), [])
             else if \<not> os_path_exists fs target_dir
               then (Reply 200 (JsonBody (JList [])), [Exists target_dir])
             else
               (case os_listdir fs target_dir of
                  Inl e \<Rightarrow> (Reply 500 (ErrorBody (ExnText e)),
                            [Exists target_dir, Listdir target_dir])
                | Inr names \<Rightarrow>
                    (Reply 200 (JsonBody (JList (map JStr
                        (filter (\<lambda>f. endswith f ''.json'') names)))),
                     [Exists target_dir, Listdir target_dir]))))"

definition get_file_get :: "string \<Rightarrow> filesystem \<Rightarrow> http_request \<Rightarrow> reply \<times> fs_call list" where
  "get_file_get SCRIPT_DIR fs rq =
     (case (query_first (query rq) ''folder'', query_first (query rq) ''filename'') of
        (Some folder, Some filename) \<Rightarrow>
          if folder = [] \<or> filename = []
            then (Reply 400 (ErrorBody (Msg ''Missing folder or filename parameter'')), [])
          else
            (let target_dir = path_join SCRIPT_DIR folder;
                 full_path = path_join target_dir filename in
             if \<not> startswith (normpath full_path) SCRIPT_DIR
               then (Reply 403 (ErrorBody (Msg ''Access denied'')), [])
             else if \<not> os_path_exists fs full_path
               then (Reply 404 (ErrorBody (Msg ''File not found'')), [Exists full_path])
             else
               (case open_read fs full_path of
                  Inl e \<Rightarrow> (Reply 500 (ErrorBody (ExnText e)),
                            [Exists full_path, OpenRead full_path])
                | Inr content \<Rightarrow>
                    (Reply 200 (RawBody content), [Exists full_path, OpenRead full_path])))
      | _ \<Rightarrow> (Reply 400 (ErrorBody (Msg ''Missing folder or filename parameter'')), []))"

definition do_GET ::
  "string \<Rightarrow> wss_details \<Rightarrow> filesystem \<Rightarrow> http_request \<Rightarrow> reply \<times> fs_call list" where
  "do_GET SCRIPT_DIR w fs rq =
     (if url_path rq = ''/api/obswss'' then (Reply 200 (JsonBody (wss_json w)), [])
      else if url_path rq = ''/api/file/list'' then get_file_list SCRIPT_DIR fs rq
      else if url_path rq = ''/api/file/get'' then get_file_get SCRIPT_DIR fs rq
      else (StaticFile, []))"

subsection \<open>\<open>OBSServerHandler.do_POST\<close>\<close>

text \<open>
  The attribute bag \<open>obs\<close> shared by the scripts: \<open>osc_manager\<close> is set by osc_io.py
  and \<open>midi_manager\<close> by midi_io.py, each absent until its script has loaded.
\<close>

record obs_attrs =
  attr_osc_manager :: "osc_bridge option"
  attr_midi_manager :: bool

text \<open>What a POST leaves behind: the reply, the file-system calls and the new file
  system, and the effects of an OSC send.\<close>

record post_result =
  reply :: reply
  fs_calls :: "fs_call list"
  fs_after :: filesystem
  effects :: "effect list"

definition answer :: "filesystem \<Rightarrow> reply \<Rightarrow> fs_call list \<Rightarrow> post_result" where
  "answer fs r calls = \<lparr> reply = r, fs_calls = calls, fs_after = fs, effects = [] \<rparr>"

definition obj_get :: "(string \<times> json) list \<Rightarrow> string \<Rightarrow> json" where
  "obj_get kvs k = (case dict_lookup kvs k of None \<Rightarrow> JNull | Some v \<Rightarrow> v)"

text \<open>The \<open>with open(full_path, 'w')\<close> block and the reply after it; \<open>json_dump\<close> is
  \<open>json.dump(data, f, indent=2)\<close>.\<close>

definition write_and_reply ::
  "(json \<Rightarrow> string) \<Rightarrow> filesystem \<Rightarrow> fs_call list \<Rightarrow> string \<Rightarrow> json \<Rightarrow> post_result" where
  "write_and_reply json_dump fs calls full_path data =
     (case open_write fs full_path (json_dump data) of
        Inl e \<Rightarrow> answer fs (Reply 500 (ErrorBody (ExnText e))) (calls @ [OpenWrite full_path])
      | Inr fs' \<Rightarrow>
          answer fs' (Reply 200 (JsonBody (JObj [(''success'', JBool True),
                                                 (''path'', JStr full_path)])))
            (calls @ [OpenWrite full_path]))"

definition post_file_save ::
  "(json \<Rightarrow> string) \<Rightarrow> string \<Rightarrow> filesystem \<Rightarrow> http_request \<Rightarrow> post_result" where
  "post_file_save json_dump SCRIPT_DIR fs rq =
     (case req_body rq of
        Inl e \<Rightarrow> answer fs (Reply 500 (ErrorBody (ExnText e))) []
      | Inr (JObj kvs) \<Rightarrow>
          (let folder = obj_get kvs ''folder'';
               filename = obj_get kvs ''filename'';
               data = obj_get kvs ''data'' in
           if \<not> truthy folder \<or> \<not> truthy filename \<or> data = JNull
             then answer fs (Reply 400 (ErrorBody (Msg ''Missing folder, filename, or data''))) []
           else
             (case folder of
                JStr fo \<Rightarrow>
                  (case filename of
                     JStr fn \<Rightarrow>
                       (let target_dir = path_join SCRIPT_DIR fo;
                            fn' = (if \<not> endswith fn ''.json'' then fn @ ''.json'' else fn);
                            full_path = path_join target_dir fn' in
                        if \<not> startswith (normpath target_dir) SCRIPT_DIR
                          then answer fs
                                 (Reply 403 (ErrorBody (Msg ''Access denied: Path outside root''))) []
                        else if \<not> os_path_exists fs target_dir then
                          (case os_makedirs fs target_dir of
                             Inl e \<Rightarrow> answer fs (Reply 500 (ErrorBody (FailedCreateDir e)))
                                        [Exists target_dir, Makedirs target_dir]
                           | Inr fs1 \<Rightarrow>
                               write_and_reply json_dump fs1
                                 [Exists target_dir, Makedirs target_dir] full_path data)
                        else write_and_reply json_dump fs [Exists target_dir] full_path data)
                   | _ \<Rightarrow> answer fs (Reply 500 (ErrorBody (ExnText AttributeError))) [])
              | _ \<Rightarrow> answer fs (Reply 500 (ErrorBody (ExnText TypeError))) []))
      | Inr _ \<Rightarrow> answer fs (Reply 500 (ErrorBody (ExnText AttributeError))) [])"

text \<open>\<open>next((c for c in clients if c.get("event_name") == event_name), None)\<close>: the
  dictionary entry is a string, so it equals the body's value only when that value is
  the same string.\<close>

fun next_client_dict :: "client_dict list \<Rightarrow> json \<Rightarrow> client_dict option" where
  "next_client_dict [] ev = None"
| "next_client_dict (d # ds) ev =
     (if JStr (dict_event_name d) = ev then Some d else next_client_dict ds ev)"

definition post_osc_send ::
  "bool \<Rightarrow> obs_attrs \<Rightarrow> osc_manager \<Rightarrow> filesystem \<Rightarrow> http_request \<Rightarrow> post_result" where
  "post_osc_send udp_ok obs m fs rq =
     (case req_body rq of
        Inl e \<Rightarrow> answer fs (Reply 500 (ErrorBody (ExnText e))) []
      | Inr (JObj kvs) \<Rightarrow>
          (let event_name = obj_get kvs ''event_name'';
               address = obj_get kvs ''address'';
               args = (case dict_lookup kvs ''args'' of None \<Rightarrow> JList [] | Some v \<Rightarrow> v) in
           if \<not> truthy address \<or> \<not> truthy event_name
             then answer fs (Reply 400 (ErrorBody (Msg ''Missing OSC address or event_name''))) []
           else
             (case attr_osc_manager obs of
                None \<Rightarrow>
                  answer fs (Reply 503 (ErrorBody (Msg ''OSC Script not loaded or registered''))) []
              | Some bridge \<Rightarrow>
                  (case next_client_dict (bridge_clients bridge) event_name of
                     None \<Rightarrow> answer fs (Reply 404 (ErrorBody (ClientNotFound event_name))) []
                   | Some target_client \<Rightarrow>
                       (answer fs (Reply 200 (JsonBody (JObj [(''success'', JBool True)]))) [])
                         \<lparr> effects := bridge_send udp_ok m target_client address args \<rparr>)))
      | Inr _ \<Rightarrow> answer fs (Reply 500 (ErrorBody (ExnText AttributeError))) [])"

definition do_POST ::
  "(json \<Rightarrow> string) \<Rightarrow> bool \<Rightarrow> string \<Rightarrow> obs_attrs \<Rightarrow> osc_manager \<Rightarrow> filesystem
     \<Rightarrow> http_request \<Rightarrow> post_result" where
  "do_POST json_dump udp_ok SCRIPT_DIR obs m fs rq =
     (if url_path rq = ''/api/file/save'' then post_file_save json_dump SCRIPT_DIR fs rq
      else if url_path rq = ''/api/osc/send'' then post_osc_send udp_ok obs m fs rq
      else answer fs (Reply 404 ErrorPage) [])"

section \<open>midi_io.py\<close>

text \<open>
  A handle is an rtmidi object: created, and after \<open>open_port\<close> bound to a port index.
  The fields \<open>midi_in\<close> and \<open>midi_out\<close> of a device are \<open>None\<close> or a handle.
\<close>

datatype handle =
    Created
  | Opened nat

record midi_device =
  device_name :: string
  port_name :: "string option"
  midi_in :: "handle option"
  midi_out :: "handle option"
  browser_source_name :: string
  midi_event_name :: string

text \<open>\<open>MidiDevice.__init__\<close>.\<close>

definition MidiDevice_init :: "string \<Rightarrow> midi_device" where
  "MidiDevice_init name =
     \<lparr> device_name = name, port_name = None, midi_in = None, midi_out = None,
       browser_source_name = [], midi_event_name = [] \<rparr>"

text \<open>
  The calls into the rtmidi driver. The environment \<open>drv\<close> tells, for each call, whether
  it returns (\<open>True\<close>) or raises.
\<close>

datatype driver_call =
    NewMidiIn
  | NewMidiOut
  | OpenIn nat
  | OpenOut nat
  | CloseIn
  | CloseOut
  | SendMessage "nat list"

text \<open>The globals of the script.\<close>

record midi_globals =
  midi_ports_in :: "string list"
  midi_devices :: "midi_device list"
  script_settings :: settings
  midi_manager_registered :: bool

text \<open>
  The body of the loop \<open>for i in range(number_of_devices)\<close> in \<open>script_load\<close>, run for
  the indices in the list. After \<open>midi_devices.append(new_device)\<close> the source prints
  \<open>midi_devices[i].port_name\<close>, an index into the table by the loop counter.
\<close>

definition new_device_from_settings :: "settings \<Rightarrow> nat \<Rightarrow> string \<Rightarrow> midi_device" where
  "new_device_from_settings st i pn =
     (let ev = obs_data_get_string st (''event_name_'' @ str_of_nat i)
      in (MidiDevice_init (''MIDI Device '' @ str_of_nat (i + 1)))
           \<lparr> port_name := Some pn,
             browser_source_name :=
               obs_data_get_string st (''browser_source_name_'' @ str_of_nat i),
             midi_event_name := (if ev = [] then ''midiDevice_'' @ str_of_nat i else ev) \<rparr>)"

fun load_devices ::
  "string list \<Rightarrow> nat list \<Rightarrow> settings \<Rightarrow> midi_device list
     \<Rightarrow> exn + (settings \<times> midi_device list)" where
  "load_devices ports [] st devs = Inr (st, devs)"
| "load_devices ports (i # is) st devs =
     (let pn = obs_data_get_string st (''midi_port_name_'' @ str_of_nat i) in
      if pn \<in> set ports then
        (let devs' = devs @ [new_device_from_settings st i pn] in
         if i < length devs' then load_devices ports is st devs'
         else Inl IndexError)
      else load_devices ports is
             (obs_data_set_string st (''midi_port_name_'' @ str_of_nat i) ''---'') devs)"

text \<open>\<open>midi_ports_in.index(name)\<close>.\<close>

fun index_of :: "string list \<Rightarrow> string \<Rightarrow> nat option" where
  "index_of [] x = None"
| "index_of (y # ys) x = (if y = x then Some 0 else map_option Suc (index_of ys x))"

text \<open>\<open>stop_midi_device\<close>: a handle whose \<open>close_port\<close> raises stays in its field.\<close>

definition stop_midi_device :: "(driver_call \<Rightarrow> bool) \<Rightarrow> midi_device \<Rightarrow> midi_device" where
  "stop_midi_device drv d =
     (let d1 = (if midi_in d \<noteq> None \<and> drv CloseIn then d\<lparr>midi_in := None\<rparr> else d)
      in (if midi_out d1 \<noteq> None \<and> drv CloseOut then d1\<lparr>midi_out := None\<rparr> else d1))"

text \<open>\<open>start_midi_device\<close>: each field is assigned as soon as its object exists; the
  first call that raises ends the function.\<close>

definition start_midi_device ::
  "(driver_call \<Rightarrow> bool) \<Rightarrow> string list \<Rightarrow> midi_device \<Rightarrow> midi_device" where
  "start_midi_device drv ports d =
     (case port_name d of
        None \<Rightarrow> d
      | Some pn \<Rightarrow>
          if pn = [] then d
          else
            (case index_of ports pn of
               None \<Rightarrow> d
             | Some port_index \<Rightarrow>
                 if \<not> drv NewMidiIn then d
                 else if \<not> drv (OpenIn port_index) then d\<lparr>midi_in := Some Created\<rparr>
                 else if \<not> drv NewMidiOut then d\<lparr>midi_in := Some (Opened port_index)\<rparr>
                 else if \<not> drv (OpenOut port_index)
                   then d\<lparr>midi_in := Some (Opened port_index), midi_out := Some Created\<rparr>
                 else d\<lparr>midi_in := Some (Opened port_index),
                         midi_out := Some (Opened port_index)\<rparr>))"

text \<open>
  \<open>script_load\<close>: \<open>enumerated\<close> is what \<open>rtmidi.MidiIn().get_ports()\<close> gives (\<open>Inl\<close> when
  it raises, which leaves \<open>midi_ports_in\<close> as it was).
\<close>

definition midi_script_load ::
  "(driver_call \<Rightarrow> bool) \<Rightarrow> exn + string list \<Rightarrow> midi_globals \<Rightarrow> settings
     \<Rightarrow> exn + midi_globals" where
  "midi_script_load drv enumerated g st =
     (let ports = (case enumerated of Inl e \<Rightarrow> midi_ports_in g | Inr ps \<Rightarrow> ps) in
      case load_devices ports [0 ..< nat (obs_data_get_int st ''number_of_devices'')]
             st (midi_devices g) of
        Inl e \<Rightarrow> Inl e
      | Inr (st', devs) \<Rightarrow>
          Inr \<lparr> midi_ports_in = ports,
                midi_devices = map (start_midi_device drv ports)
                                 (map (stop_midi_device drv) devs),
                script_settings = st',
                midi_manager_registered = True \<rparr>)"

text \<open>The globals when the script is first loaded.\<close>

definition midi_globals_initial :: "settings \<Rightarrow> midi_globals" where
  "midi_globals_initial st =
     \<lparr> midi_ports_in = [], midi_devices = [], script_settings = st,
       midi_manager_registered = False \<rparr>"

subsection \<open>\<open>send_midi_api\<close>\<close>

text \<open>\<open>bytearray.fromhex\<close>: ASCII white space between bytes is skipped, every byte is two
  hexadecimal digits.\<close>

definition isspace :: "char \<Rightarrow> bool" where
  "isspace c = (c \<in> set [CHR '' '', CHR 0x09, CHR 0x0A, CHR 0x0B, CHR 0x0C, CHR 0x0D])"

definition hexval :: "char \<Rightarrow> nat option" where
  "hexval c =
     (let n = (of_char c :: nat) in
      if 48 \<le> n \<and> n \<le> 57 then Some (n - 48)
      else if 97 \<le> n \<and> n \<le> 102 then Some (n - 87)
      else if 65 \<le> n \<and> n \<le> 70 then Some (n - 55)
      else None)"

fun fromhex :: "string \<Rightarrow> nat list option" where
  "fromhex [] = Some []"
| "fromhex [c] = (if isspace c then Some [] else None)"
| "fromhex (c # d # cs) =
     (if isspace c then fromhex (d # cs)
      else (case (hexval c, hexval d) of
              (Some hi, Some lo) \<Rightarrow> map_option ((#) (hi * 16 + lo)) (fromhex cs)
            | _ \<Rightarrow> None))"

text \<open>\<open>data.replace(" ", "")\<close>.\<close>

definition remove_spaces :: "string \<Rightarrow> string" where
  "remove_spaces s = filter (\<lambda>c. c \<noteq> CHR '' '') s"

text \<open>\<open>bytearray(data)\<close> for a list: every element must be an integer in
  \<open>range(256)\<close>; a Python \<open>bool\<close> is such an integer.\<close>

fun byte_of :: "json \<Rightarrow> nat option" where
  "byte_of (JInt n) = (if 0 \<le> n \<and> n < 256 then Some (nat n) else None)"
| "byte_of (JBool b) = Some (if b then 1 else 0)"
| "byte_of _ = None"

fun bytearray_of_list :: "json list \<Rightarrow> nat list option" where
  "bytearray_of_list [] = Some []"
| "bytearray_of_list (x # xs) =
     (case byte_of x of
        None \<Rightarrow> None
      | Some b \<Rightarrow> map_option ((#) b) (bytearray_of_list xs))"

text \<open>\<open>next((d for d in midi_devices if d.event_name == event_name), None)\<close>.\<close>

fun next_device :: "midi_device list \<Rightarrow> json \<Rightarrow> midi_device option" where
  "next_device [] ev = None"
| "next_device (d # ds) ev =
     (if JStr (midi_event_name d) = ev then Some d else next_device ds ev)"

text \<open>
  \<open>send_midi_api\<close> (\<open>name\<close> is the source's \<open>event_name\<close>): the returned flag and
  the messages handed to the output port that the driver accepted.
\<close>

definition send_midi_api ::
  "(driver_call \<Rightarrow> bool) \<Rightarrow> midi_device list \<Rightarrow> json \<Rightarrow> json \<Rightarrow> bool \<times> nat list list" where
  "send_midi_api drv devs name data =
     (case next_device devs name of
        None \<Rightarrow> (False, [])
      | Some target_device \<Rightarrow>
          if midi_out target_device = None then (False, [])
          else
            (case data of
               JStr s \<Rightarrow>
                 (case fromhex (remove_spaces s) of
                    None \<Rightarrow> (False, [])
                  | Some message \<Rightarrow>
                      if drv (SendMessage message) then (True, [message]) else (False, []))
             | JList xs \<Rightarrow>
                 (case bytearray_of_list xs of
                    None \<Rightarrow> (False, [])
                  | Some message \<Rightarrow>
                      if drv (SendMessage message) then (True, [message]) else (False, []))
             | _ \<Rightarrow> (False, [])))"

subsection \<open>\<open>midi_input_callback\<close>\<close>

text \<open>
  The callback gets the device and the bytes of the message (\<open>message[0]\<close>).
  \<open>source_exists\<close> is the host's \<open>obs_get_source_by_name\<close>, and \<open>inject_ok\<close> tells
  whether the calls of the \<open>try\<close> block return. The result is \<open>Inl\<close> when an exception
  leaves the callback.
\<close>

definition midi_input_callback ::
  "(string \<Rightarrow> bool) \<Rightarrow> bool \<Rightarrow> midi_device \<Rightarrow> nat list \<Rightarrow> exn + effect list" where
  "midi_input_callback source_exists inject_ok device midi_data =
     (case midi_data of
        [] \<Rightarrow> Inl IndexError
      | midi_status # _ \<Rightarrow>
          (let midi_note = (if length midi_data > 1 then midi_data ! 1 else 0);
               midi_velocity = (if length midi_data > 2 then midi_data ! 2 else 0);
               shown = [PrintMidiIn midi_status midi_note midi_velocity] in
           if browser_source_name device \<noteq> [] then
             (if source_exists (browser_source_name device) then
                (if inject_ok then
                   Inr (shown @ [JsEventMidi (browser_source_name device) (midi_event_name device)
                                   midi_status midi_note midi_velocity midi_data,
                                 SourceRelease (browser_source_name device)])
                 else
                   Inr (shown @ [LogBrowserError, SourceRelease (browser_source_name device)]))
              else Inr shown)
           else Inr shown))"

subsection \<open>The specification's reading of a hexadecimal string\<close>

text \<open>
  Written from the specification's words, not from the code: a hexadecimal string is
  pairs of hexadecimal digits with optional separators. The separators (ASCII white
  space) are taken out, and what is left must split into pairs of digits, each pair one
  byte; an odd number of digits or any other character is not such a string.
\<close>

fun spec_pair_up :: "string \<Rightarrow> nat list option" where
  "spec_pair_up [] = Some []"
| "spec_pair_up [c] = None"
| "spec_pair_up (c # d # cs) =
     (case (hexval c, hexval d) of
        (Some hi, Some lo) \<Rightarrow> map_option ((#) (hi * 16 + lo)) (spec_pair_up cs)
      | _ \<Rightarrow> None)"

definition spec_hex_bytes :: "string \<Rightarrow> nat list option" where
  "spec_hex_bytes s = spec_pair_up (filter (\<lambda>c. \<not> isspace c) s)"

subsection \<open>The amended reading of a hexadecimal string\<close>

text \<open>
  Written from the words of the amended claim, not from the code: the space characters
  are dropped; what remains is cut at the other ASCII white space (tab, line feed,
  vertical tab, form feed, carriage return) into groups; every group must be pairs of
  hexadecimal digits; the bytes are those of the groups, in order.
\<close>

function hex_groups :: "string \<Rightarrow> string list" where
  "hex_groups [] = []"
| "hex_groups (c # cs) =
     (if isspace c then hex_groups cs
      else (c # takeWhile (\<lambda>x. \<not> isspace x) cs)
             # hex_groups (dropWhile (\<lambda>x. \<not> isspace x) cs))"
  by pat_completeness auto
termination
  by (relation "measure length") (auto simp add: le_imp_less_Suc length_dropWhile_le)

fun join_groups :: "string list \<Rightarrow> nat list option" where
  "join_groups [] = Some []"
| "join_groups (g # gs) =
     (case spec_pair_up g of
        None \<Rightarrow> None
      | Some bs \<Rightarrow> map_option ((@) bs) (join_groups gs))"

definition amended_hex_bytes :: "string \<Rightarrow> nat list option" where
  "amended_hex_bytes s = join_groups (hex_groups (filter (\<lambda>c. c \<noteq> CHR '' '') s))"

section \<open>Properties of the OSC service\<close>

lemma startswith_prefix: "startswith s p \<longleftrightarrow> prefix p s"
proof
  assume "startswith s p"
  then have t: "take (length p) s = p" by (simp add: startswith_def)
  have "take (length p) s @ drop (length p) s = s" by simp
  with t have "s = p @ drop (length p) s" by simp
  then show "prefix p s" by (rule prefixI)
next
  assume "prefix p s"
  then obtain zs where "s = p @ zs" by (auto simp: prefix_def)
  then show "startswith s p" by (simp add: startswith_def)
qed

lemma matches_iff: "matches c a \<longleftrightarrow> osc_address c = [] \<or> prefix (osc_address c) a"
  by (simp add: matches_def startswith_prefix)

lemma scan_clients_none:
  "\<forall>c \<in> set cs. \<not> matches c a \<Longrightarrow> scan_clients se i cs a args = ([], Inr [])"
  by (induction cs arbitrary: i) auto

lemma scan_clients_first:
  "k < length cs \<Longrightarrow> matches (cs ! k) a \<Longrightarrow> \<forall>j<k. \<not> matches (cs ! j) a \<Longrightarrow>
   scan_clients se i cs a args = ([i + k], dispatch_to_obs se (cs ! k) a args)"
proof (induction cs arbitrary: i k)
  case Nil
  then show ?case by simp
next
  case (Cons c cs)
  show ?case
  proof (cases k)
    case 0
    with Cons.prems show ?thesis by simp
  next
    case (Suc k')
    from Cons.prems(3) Suc have c: "\<not> matches c a" by auto
    have rest: "\<forall>j<k'. \<not> matches (cs ! j) a"
    proof (intro allI impI)
      fix j assume "j < k'"
      then have "Suc j < k" using Suc by simp
      with Cons.prems(3) have "\<not> matches ((c # cs) ! Suc j) a" by blast
      then show "\<not> matches (cs ! j) a" by simp
    qed
    from Cons.prems(1,2) Suc have "k' < length cs" "matches (cs ! k') a" by simp_all
    from Cons.IH[OF this rest, of "Suc i"] c Suc show ?thesis by simp
  qed
qed

lemma first_match_exists:
  "\<exists>c \<in> set cs. P c \<Longrightarrow> \<exists>k<length cs. P (cs ! k) \<and> (\<forall>j<k. \<not> P (cs ! j))"
proof (induction cs)
  case Nil
  then show ?case by simp
next
  case (Cons c cs)
  show ?case
  proof (cases "P c")
    case True
    then have "0 < length (c # cs) \<and> P ((c # cs) ! 0) \<and> (\<forall>j<0. \<not> P ((c # cs) ! j))"
      by simp
    then show ?thesis by blast
  next
    case False
    with Cons.prems have "\<exists>c \<in> set cs. P c" by simp
    from Cons.IH[OF this] obtain k where
      k: "k < length cs" "P (cs ! k)" "\<forall>j<k. \<not> P (cs ! j)" by blast
    have "\<forall>j<Suc k. \<not> P ((c # cs) ! j)"
    proof (intro allI impI)
      fix j assume j: "j < Suc k"
      show "\<not> P ((c # cs) ! j)"
      proof (cases j)
        case 0
        with False show ?thesis by simp
      next
        case (Suc j')
        with j k(3) show ?thesis by simp
      qed
    qed
    with k(1,2) have "Suc k < length (c # cs) \<and> P ((c # cs) ! Suc k) \<and> (\<forall>j<Suc k. \<not> P ((c # cs) ! j))"
      by simp
    then show ?thesis by blast
  qed
qed

text \<open>
  C2. The inbound OSC dispatch scans the client table in declared order. If some client's
  address filter is empty or a prefix of the incoming address, \<open>_dispatch_to_obs\<close> is
  called for exactly one table position, the least one whose filter matches; if no
  filter matches, it is called for none, nothing is done and no exception is raised.
\<close>

theorem on_osc_received_first_match_only:
  fixes m :: osc_manager and a :: string
  defines "hit \<equiv> \<lambda>c. osc_address c = [] \<or> prefix (osc_address c) a"
  shows "(\<exists>k<length (clients m).
            hit (clients m ! k) \<and> (\<forall>j<k. \<not> hit (clients m ! j)) \<and>
            on_osc_received se m a args = ([k], dispatch_to_obs se (clients m ! k) a args))
         \<or> ((\<forall>c \<in> set (clients m). \<not> hit c) \<and> on_osc_received se m a args = ([], Inr []))"
proof (cases "\<exists>c \<in> set (clients m). matches c a")
  case True
  from first_match_exists[OF True] obtain k where
    k: "k < length (clients m)" "matches (clients m ! k) a" "\<forall>j<k. \<not> matches (clients m ! j) a"
    by blast
  from scan_clients_first[OF k, of se 0 args]
  have "on_osc_received se m a args = ([k], dispatch_to_obs se (clients m ! k) a args)"
    by (simp add: on_osc_received_def)
  with k show ?thesis unfolding hit_def matches_iff by blast
next
  case False
  then have none: "\<forall>c \<in> set (clients m). \<not> matches c a" by blast
  from scan_clients_none[OF none, of se 0 args]
  have "on_osc_received se m a args = ([], Inr [])"
    by (simp add: on_osc_received_def)
  with none show ?thesis unfolding hit_def matches_iff by blast
qed

theorem on_osc_received_first_match_only_witness:
  "on_osc_received (\<lambda>s. True)
     \<lparr> clients =
         [\<lparr> ip = ''10.0.0.2'', port = 9000, browser_source = ''mixer'',
            osc_address = ''/xy'', event_name = ''osc_event_0'', udp_client = True \<rparr>,
          \<lparr> ip = ''10.0.0.3'', port = 9000, browser_source = ''faders'',
            osc_address = ''/fader'', event_name = ''osc_event_1'', udp_client = True \<rparr>,
          \<lparr> ip = ''10.0.0.4'', port = 9000, browser_source = ''all'',
            osc_address = '''', event_name = ''osc_event_2'', udp_client = False \<rparr>] \<rparr>
     ''/fader1'' [OInt 1]
   = ([1], Inr [JsEventOsc ''faders'' ''osc_event_1'' ''/fader1'' [OInt 1],
                SourceRelease ''faders''])
   \<and> on_osc_received (\<lambda>s. True)
     \<lparr> clients =
         [\<lparr> ip = ''10.0.0.2'', port = 9000, browser_source = ''mixer'',
            osc_address = ''/xy'', event_name = ''osc_event_0'', udp_client = True \<rparr>] \<rparr>
     ''/fader1'' [OInt 1]
   = ([], Inr [])"
  using on_osc_received_first_match_only
    [of "\<lparr> clients =
         [\<lparr> ip = ''10.0.0.2'', port = 9000, browser_source = ''mixer'',
            osc_address = ''/xy'', event_name = ''osc_event_0'', udp_client = True \<rparr>,
          \<lparr> ip = ''10.0.0.3'', port = 9000, browser_source = ''faders'',
            osc_address = ''/fader'', event_name = ''osc_event_1'', udp_client = True \<rparr>,
          \<lparr> ip = ''10.0.0.4'', port = 9000, browser_source = ''all'',
            osc_address = '''', event_name = ''osc_event_2'', udp_client = False \<rparr>] \<rparr>"
        "''/fader1''" "\<lambda>s. True" "[OInt 1]"]
  by (simp add: on_osc_received_def matches_def startswith_def dispatch_to_obs_def)

section \<open>Properties of the HTTP control service: the OSC send route\<close>

lemma next_client_dict_None:
  "(next_client_dict ds ev = None) \<longleftrightarrow> (\<forall>d \<in> set ds. JStr (dict_event_name d) \<noteq> ev)"
  by (induction ds) auto

lemma post_osc_send_unregistered:
  "req_body rq = Inr (JObj kvs) \<Longrightarrow> truthy (obj_get kvs ''event_name'') \<Longrightarrow>
   truthy (obj_get kvs ''address'') \<Longrightarrow> attr_osc_manager obs = None \<Longrightarrow>
   post_osc_send udp_ok obs m fs rq =
     answer fs (Reply 503 (ErrorBody (Msg ''OSC Script not loaded or registered''))) []"
  by (simp add: post_osc_send_def)

lemma post_osc_send_unknown:
  "req_body rq = Inr (JObj kvs) \<Longrightarrow> truthy (obj_get kvs ''event_name'') \<Longrightarrow>
   truthy (obj_get kvs ''address'') \<Longrightarrow> attr_osc_manager obs = Some br \<Longrightarrow>
   \<forall>d \<in> set (bridge_clients br). JStr (dict_event_name d) \<noteq> obj_get kvs ''event_name'' \<Longrightarrow>
   post_osc_send udp_ok obs m fs rq =
     answer fs (Reply 404 (ErrorBody (ClientNotFound (obj_get kvs ''event_name'')))) []"
  using next_client_dict_None[of "bridge_clients br" "obj_get kvs ''event_name''"]
  by (simp add: post_osc_send_def)

lemma post_osc_send_known:
  "req_body rq = Inr (JObj kvs) \<Longrightarrow> truthy (obj_get kvs ''event_name'') \<Longrightarrow>
   truthy (obj_get kvs ''address'') \<Longrightarrow> attr_osc_manager obs = Some br \<Longrightarrow>
   \<exists>d \<in> set (bridge_clients br). JStr (dict_event_name d) = obj_get kvs ''event_name'' \<Longrightarrow>
   \<exists>d. next_client_dict (bridge_clients br) (obj_get kvs ''event_name'') = Some d \<and>
     post_osc_send udp_ok obs m fs rq =
       (answer fs (Reply 200 (JsonBody (JObj [(''success'', JBool True)]))) [])
         \<lparr> effects := bridge_send udp_ok m d (obj_get kvs ''address'')
               (case dict_lookup kvs ''args'' of None \<Rightarrow> JList [] | Some v \<Rightarrow> v) \<rparr>"
  using next_client_dict_None[of "bridge_clients br" "obj_get kvs ''event_name''"]
  by (cases "next_client_dict (bridge_clients br) (obj_get kvs ''event_name'')")
     (auto simp add: post_osc_send_def)

lemma do_POST_osc_send:
  "url_path rq = ''/api/osc/send'' \<Longrightarrow>
   do_POST json_dump udp_ok SCRIPT_DIR obs m fs rq = post_osc_send udp_ok obs m fs rq"
  by (simp add: do_POST_def)

text \<open>
  C3. A POST to \<open>/api/osc/send\<close> whose body is an object with a non-empty \<open>event_name\<close>
  and a non-empty \<open>address\<close> is answered with 503 when no OSC bridge is registered, with
  404 when a bridge is registered but none of its clients has that event name, and with
  200 and the body \<open>{"success": true}\<close> when one of its clients has that event name.
\<close>

theorem osc_send_status_503_404_200:
  assumes "url_path rq = ''/api/osc/send''"
    and "req_body rq = Inr (JObj kvs)"
    and "truthy (obj_get kvs ''event_name'')"
    and "truthy (obj_get kvs ''address'')"
  shows "(attr_osc_manager obs = None \<longrightarrow>
            reply (do_POST json_dump udp_ok SCRIPT_DIR obs m fs rq)
              = Reply 503 (ErrorBody (Msg ''OSC Script not loaded or registered'')))
       \<and> (\<forall>br. attr_osc_manager obs = Some br \<and>
                (\<forall>d \<in> set (bridge_clients br).
                    JStr (dict_event_name d) \<noteq> obj_get kvs ''event_name'') \<longrightarrow>
            reply (do_POST json_dump udp_ok SCRIPT_DIR obs m fs rq)
              = Reply 404 (ErrorBody (ClientNotFound (obj_get kvs ''event_name''))))
       \<and> (\<forall>br. attr_osc_manager obs = Some br \<and>
                (\<exists>d \<in> set (bridge_clients br).
                    JStr (dict_event_name d) = obj_get kvs ''event_name'') \<longrightarrow>
            reply (do_POST json_dump udp_ok SCRIPT_DIR obs m fs rq)
              = Reply 200 (JsonBody (JObj [(''success'', JBool True)])))"
proof (intro conjI allI impI)
  assume "attr_osc_manager obs = None"
  from post_osc_send_unregistered[OF assms(2,3,4) this, of udp_ok m fs]
  show "reply (do_POST json_dump udp_ok SCRIPT_DIR obs m fs rq)
          = Reply 503 (ErrorBody (Msg ''OSC Script not loaded or registered''))"
    by (simp add: do_POST_osc_send[OF assms(1)] answer_def)
next
  fix br
  assume h: "attr_osc_manager obs = Some br \<and>
    (\<forall>d \<in> set (bridge_clients br). JStr (dict_event_name d) \<noteq> obj_get kvs ''event_name'')"
  then have a: "attr_osc_manager obs = Some br"
    and b: "\<forall>d \<in> set (bridge_clients br). JStr (dict_event_name d) \<noteq> obj_get kvs ''event_name''"
    by simp_all
  from post_osc_send_unknown[OF assms(2,3,4) a b, of udp_ok m fs]
  show "reply (do_POST json_dump udp_ok SCRIPT_DIR obs m fs rq)
          = Reply 404 (ErrorBody (ClientNotFound (obj_get kvs ''event_name'')))"
    by (simp add: do_POST_osc_send[OF assms(1)] answer_def)
next
  fix br
  assume h: "attr_osc_manager obs = Some br \<and>
    (\<exists>d \<in> set (bridge_clients br). JStr (dict_event_name d) = obj_get kvs ''event_name'')"
  then have a: "attr_osc_manager obs = Some br"
    and b: "\<exists>d \<in> set (bridge_clients br). JStr (dict_event_name d) = obj_get kvs ''event_name''"
    by simp_all
  from post_osc_send_known[OF assms(2,3,4) a b, of udp_ok m fs]
  show "reply (do_POST json_dump udp_ok SCRIPT_DIR obs m fs rq)
          = Reply 200 (JsonBody (JObj [(''success'', JBool True)]))"
    by (auto simp add: do_POST_osc_send[OF assms(1)] answer_def)
qed

theorem osc_send_status_503_404_200_witness:
  "reply (do_POST (\<lambda>d. '''') True ''/srv/obs''
            \<lparr> attr_osc_manager = None, attr_midi_manager = False \<rparr>
            \<lparr> clients = [] \<rparr>
            \<lparr> files = [], dirs = [], denied = (\<lambda>p. False) \<rparr>
            \<lparr> url_path = ''/api/osc/send'', query = [],
              req_body = Inr (JObj [(''event_name'', JStr ''osc_event_0''),
                                    (''address'', JStr ''/fader1''),
                                    (''args'', JList [JFloat (1 / 2)])]) \<rparr>)
     = Reply 503 (ErrorBody (Msg ''OSC Script not loaded or registered''))
   \<and> reply (do_POST (\<lambda>d. '''') True ''/srv/obs''
            \<lparr> attr_osc_manager = Some \<lparr> bridge_clients =
                 [\<lparr> client_ip = ''10.0.0.2'', client_port = 9000,
                    dict_browser_source_name = ''mixer'', dict_osc_address = ''/xy'',
                    dict_event_name = ''osc_event_1'' \<rparr>] \<rparr>,
              attr_midi_manager = False \<rparr>
            \<lparr> clients = [] \<rparr>
            \<lparr> files = [], dirs = [], denied = (\<lambda>p. False) \<rparr>
            \<lparr> url_path = ''/api/osc/send'', query = [],
              req_body = Inr (JObj [(''event_name'', JStr ''osc_event_0''),
                                    (''address'', JStr ''/fader1''),
                                    (''args'', JList [JFloat (1 / 2)])]) \<rparr>)
     = Reply 404 (ErrorBody (ClientNotFound (JStr ''osc_event_0'')))
   \<and> reply (do_POST (\<lambda>d. '''') True ''/srv/obs''
            \<lparr> attr_osc_manager = Some \<lparr> bridge_clients =
                 [\<lparr> client_ip = ''10.0.0.2'', client_port = 9000,
                    dict_browser_source_name = ''mixer'', dict_osc_address = ''/xy'',
                    dict_event_name = ''osc_event_0'' \<rparr>] \<rparr>,
              attr_midi_manager = False \<rparr>
            \<lparr> clients = [] \<rparr>
            \<lparr> files = [], dirs = [], denied = (\<lambda>p. False) \<rparr>
            \<lparr> url_path = ''/api/osc/send'', query = [],
              req_body = Inr (JObj [(''event_name'', JStr ''osc_event_0''),
                                    (''address'', JStr ''/fader1''),
                                    (''args'', JList [JFloat (1 / 2)])]) \<rparr>)
     = Reply 200 (JsonBody (JObj [(''success'', JBool True)]))"
  using
    osc_send_status_503_404_200
      [of "\<lparr> url_path = ''/api/osc/send'', query = [],
              req_body = Inr (JObj [(''event_name'', JStr ''osc_event_0''),
                                    (''address'', JStr ''/fader1''),
                                    (''args'', JList [JFloat (1 / 2)])]) \<rparr>"
          "[(''event_name'', JStr ''osc_event_0''), (''address'', JStr ''/fader1''),
            (''args'', JList [JFloat (1 / 2)])]"
          "\<lparr> attr_osc_manager = None, attr_midi_manager = False \<rparr>"
          "\<lambda>d. ''''" True "''/srv/obs''" "\<lparr> clients = [] \<rparr>"
          "\<lparr> files = [], dirs = [], denied = (\<lambda>p. False) \<rparr>"]
    osc_send_status_503_404_200
      [of "\<lparr> url_path = ''/api/osc/send'', query = [],
              req_body = Inr (JObj [(''event_name'', JStr ''osc_event_0''),
                                    (''address'', JStr ''/fader1''),
                                    (''args'', JList [JFloat (1 / 2)])]) \<rparr>"
          "[(''event_name'', JStr ''osc_event_0''), (''address'', JStr ''/fader1''),
            (''args'', JList [JFloat (1 / 2)])]"
          "\<lparr> attr_osc_manager = Some \<lparr> bridge_clients =
                 [\<lparr> client_ip = ''10.0.0.2'', client_port = 9000,
                    dict_browser_source_name = ''mixer'', dict_osc_address = ''/xy'',
                    dict_event_name = ''osc_event_1'' \<rparr>] \<rparr>,
              attr_midi_manager = False \<rparr>"
          "\<lambda>d. ''''" True "''/srv/obs''" "\<lparr> clients = [] \<rparr>"
          "\<lparr> files = [], dirs = [], denied = (\<lambda>p. False) \<rparr>"]
    osc_send_status_503_404_200
      [of "\<lparr> url_path = ''/api/osc/send'', query = [],
              req_body = Inr (JObj [(''event_name'', JStr ''osc_event_0''),
                                    (''address'', JStr ''/fader1''),
                                    (''args'', JList [JFloat (1 / 2)])]) \<rparr>"
          "[(''event_name'', JStr ''osc_event_0''), (''address'', JStr ''/fader1''),
            (''args'', JList [JFloat (1 / 2)])]"
          "\<lparr> attr_osc_manager = Some \<lparr> bridge_clients =
                 [\<lparr> client_ip = ''10.0.0.2'', client_port = 9000,
                    dict_browser_source_name = ''mixer'', dict_osc_address = ''/xy'',
                    dict_event_name = ''osc_event_0'' \<rparr>] \<rparr>,
              attr_midi_manager = False \<rparr>"
          "\<lambda>d. ''''" True "''/srv/obs''" "\<lparr> clients = [] \<rparr>"
          "\<lparr> files = [], dirs = [], denied = (\<lambda>p. False) \<rparr>"]
  by (simp add: obj_get_def dict_lookup_def)

lemma next_client_Some: "next_client cs n = Some c \<Longrightarrow> c \<in> set cs"
  by (induction cs) (auto split: if_splits)

lemma bridge_send_no_datagram:
  "\<not> udp_ok \<or> (\<forall>c \<in> set (clients m). \<not> udp_client c) \<Longrightarrow>
   \<forall>e \<in> set (bridge_send udp_ok m d address arguments). \<not> is_udp_send e"
proof (cases "next_client (clients m) (dict_event_name d)")
  case None
  then show ?thesis by (simp add: bridge_send_def)
next
  case (Some target)
  then have "target \<in> set (clients m)" by (rule next_client_Some)
  moreover assume "\<not> udp_ok \<or> (\<forall>c \<in> set (clients m). \<not> udp_client c)"
  ultimately have "\<not> udp_ok \<or> \<not> udp_client target" by blast
  with Some show ?thesis by (auto simp add: bridge_send_def OSCClient_send_def)
qed

text \<open>
  C10. When the OSC bridge is registered and the event name of a well-formed
  \<open>/api/osc/send\<close> request names one of its clients, the answer is 200 with
  \<open>{"success": true}\<close> whatever the transmission does: it is the same for a send that
  raises and one that returns and for any client table of the manager, and when the send
  raises or no client of the manager holds a socket, no datagram is handed to a socket.
\<close>

theorem osc_send_200_regardless_of_transmit:
  assumes "url_path rq = ''/api/osc/send''"
    and "req_body rq = Inr (JObj kvs)"
    and "truthy (obj_get kvs ''event_name'')"
    and "truthy (obj_get kvs ''address'')"
    and "attr_osc_manager obs = Some br"
    and "\<exists>d \<in> set (bridge_clients br). JStr (dict_event_name d) = obj_get kvs ''event_name''"
  shows "reply (do_POST json_dump udp_ok SCRIPT_DIR obs m fs rq)
           = Reply 200 (JsonBody (JObj [(''success'', JBool True)]))
       \<and> reply (do_POST json_dump udp_ok' SCRIPT_DIR obs m' fs rq)
           = reply (do_POST json_dump udp_ok SCRIPT_DIR obs m fs rq)
       \<and> (\<not> udp_ok \<or> (\<forall>c \<in> set (clients m). \<not> udp_client c) \<longrightarrow>
            (\<forall>e \<in> set (effects (do_POST json_dump udp_ok SCRIPT_DIR obs m fs rq)).
                \<not> is_udp_send e))"
proof -
  from post_osc_send_known[OF assms(2,3,4,5,6), of udp_ok m fs] obtain d where
    d: "post_osc_send udp_ok obs m fs rq =
       (answer fs (Reply 200 (JsonBody (JObj [(''success'', JBool True)]))) [])
         \<lparr> effects := bridge_send udp_ok m d (obj_get kvs ''address'')
               (case dict_lookup kvs ''args'' of None \<Rightarrow> JList [] | Some v \<Rightarrow> v) \<rparr>"
    by blast
  from post_osc_send_known[OF assms(2,3,4,5,6), of udp_ok' m' fs] obtain d' where
    d': "post_osc_send udp_ok' obs m' fs rq =
       (answer fs (Reply 200 (JsonBody (JObj [(''success'', JBool True)]))) [])
         \<lparr> effects := bridge_send udp_ok' m' d' (obj_get kvs ''address'')
               (case dict_lookup kvs ''args'' of None \<Rightarrow> JList [] | Some v \<Rightarrow> v) \<rparr>"
    by blast
  have r: "reply (do_POST json_dump udp_ok SCRIPT_DIR obs m fs rq)
           = Reply 200 (JsonBody (JObj [(''success'', JBool True)]))"
    by (simp add: do_POST_osc_send[OF assms(1)] d answer_def)
  have r': "reply (do_POST json_dump udp_ok' SCRIPT_DIR obs m' fs rq)
           = Reply 200 (JsonBody (JObj [(''success'', JBool True)]))"
    by (simp add: do_POST_osc_send[OF assms(1)] d' answer_def)
  have e: "effects (do_POST json_dump udp_ok SCRIPT_DIR obs m fs rq)
           = bridge_send udp_ok m d (obj_get kvs ''address'')
               (case dict_lookup kvs ''args'' of None \<Rightarrow> JList [] | Some v \<Rightarrow> v)"
    by (simp add: do_POST_osc_send[OF assms(1)] d answer_def)
  from r r' e bridge_send_no_datagram[of udp_ok m d] show ?thesis by simp
qed

theorem osc_send_200_regardless_of_transmit_witness:
  "reply (do_POST (\<lambda>d. '''') False ''/srv/obs''
            \<lparr> attr_osc_manager = Some \<lparr> bridge_clients =
                 [\<lparr> client_ip = '''', client_port = 0,
                    dict_browser_source_name = ''mixer'', dict_osc_address = ''/xy'',
                    dict_event_name = ''osc_event_0'' \<rparr>] \<rparr>,
              attr_midi_manager = False \<rparr>
            \<lparr> clients = [\<lparr> ip = '''', port = 0, browser_source = ''mixer'',
                           osc_address = ''/xy'', event_name = ''osc_event_0'',
                           udp_client = False \<rparr>] \<rparr>
            \<lparr> files = [], dirs = [], denied = (\<lambda>p. False) \<rparr>
            \<lparr> url_path = ''/api/osc/send'', query = [],
              req_body = Inr (JObj [(''event_name'', JStr ''osc_event_0''),
                                    (''address'', JStr ''/fader1'')]) \<rparr>)
     = Reply 200 (JsonBody (JObj [(''success'', JBool True)]))
   \<and> effects (do_POST (\<lambda>d. '''') False ''/srv/obs''
            \<lparr> attr_osc_manager = Some \<lparr> bridge_clients =
                 [\<lparr> client_ip = '''', client_port = 0,
                    dict_browser_source_name = ''mixer'', dict_osc_address = ''/xy'',
                    dict_event_name = ''osc_event_0'' \<rparr>] \<rparr>,
              attr_midi_manager = False \<rparr>
            \<lparr> clients = [\<lparr> ip = '''', port = 0, browser_source = ''mixer'',
                           osc_address = ''/xy'', event_name = ''osc_event_0'',
                           udp_client = False \<rparr>] \<rparr>
            \<lparr> files = [], dirs = [], denied = (\<lambda>p. False) \<rparr>
            \<lparr> url_path = ''/api/osc/send'', query = [],
              req_body = Inr (JObj [(''event_name'', JStr ''osc_event_0''),
                                    (''address'', JStr ''/fader1'')]) \<rparr>)
     = []"
  using
    osc_send_200_regardless_of_transmit
      [of "\<lparr> url_path = ''/api/osc/send'', query = [],
              req_body = Inr (JObj [(''event_name'', JStr ''osc_event_0''),
                                    (''address'', JStr ''/fader1'')]) \<rparr>"
          "[(''event_name'', JStr ''osc_event_0''), (''address'', JStr ''/fader1'')]"
          "\<lparr> attr_osc_manager = Some \<lparr> bridge_clients =
                 [\<lparr> client_ip = '''', client_port = 0,
                    dict_browser_source_name = ''mixer'', dict_osc_address = ''/xy'',
                    dict_event_name = ''osc_event_0'' \<rparr>] \<rparr>,
              attr_midi_manager = False \<rparr>"
          "\<lparr> bridge_clients =
                 [\<lparr> client_ip = '''', client_port = 0,
                    dict_browser_source_name = ''mixer'', dict_osc_address = ''/xy'',
                    dict_event_name = ''osc_event_0'' \<rparr>] \<rparr>"
          "\<lambda>d. ''''" False "''/srv/obs''"
          "\<lparr> clients = [\<lparr> ip = '''', port = 0, browser_source = ''mixer'',
                           osc_address = ''/xy'', event_name = ''osc_event_0'',
                           udp_client = False \<rparr>] \<rparr>"
          "\<lparr> files = [], dirs = [], denied = (\<lambda>p. False) \<rparr>" False
          "\<lparr> clients = [] \<rparr>"]
  by (simp add: obj_get_def dict_lookup_def do_POST_def post_osc_send_def answer_def
        bridge_send_def OSCClient_send_def)

section \<open>Properties of the HTTP control service: other POST paths\<close>

lemma do_POST_other_path:
  "url_path rq \<noteq> ''/api/file/save'' \<Longrightarrow> url_path rq \<noteq> ''/api/osc/send'' \<Longrightarrow>
   do_POST json_dump udp_ok SCRIPT_DIR obs m fs rq = answer fs (Reply 404 ErrorPage) []"
  by (simp add: do_POST_def)

text \<open>
  C4. The claim is that the HTTP server has a MIDI send route that answers 503, 404 or
  200. The handler has no such route: a POST to \<open>/api/midi/send\<close> with a body naming a
  device and its data falls through to the final \<open>send_error(404)\<close>, whether the MIDI
  bridge is registered or not, whatever the OSC bridge is, and without any effect.
\<close>

theorem midi_send_route_falls_through_to_404:
  "reply (do_POST json_dump udp_ok SCRIPT_DIR
            \<lparr> attr_osc_manager = osc, attr_midi_manager = midi_registered \<rparr> m fs
            \<lparr> url_path = ''/api/midi/send'', query = [],
              req_body = Inr (JObj [(''event_name'', JStr ''midiDevice_0''),
                                    (''data'', JStr ''90 3C 40'')]) \<rparr>)
     = Reply 404 ErrorPage
   \<and> effects (do_POST json_dump udp_ok SCRIPT_DIR
            \<lparr> attr_osc_manager = osc, attr_midi_manager = midi_registered \<rparr> m fs
            \<lparr> url_path = ''/api/midi/send'', query = [],
              req_body = Inr (JObj [(''event_name'', JStr ''midiDevice_0''),
                                    (''data'', JStr ''90 3C 40'')]) \<rparr>)
     = []"
  by (simp add: do_POST_def answer_def)

section \<open>Properties of the credential loader\<close>

lemma update_wss_details_no_file:
  "source_path = [] \<or> f = NoFile \<Longrightarrow>
   update_wss_details str_to_int w source_path f = ((False, FileNotFound), w)"
  by (auto simp add: update_wss_details_def)

lemma update_wss_details_invalid_json:
  "source_path \<noteq> [] \<Longrightarrow>
   update_wss_details str_to_int w source_path InvalidJson = ((False, InvalidJSON), w)"
  by (simp add: update_wss_details_def)

lemma update_wss_details_unreadable:
  "source_path \<noteq> [] \<Longrightarrow>
   update_wss_details str_to_int w source_path (OpenRaises e) = ((False, ErrorMsg e), w)"
  by (simp add: update_wss_details_def)

lemma update_wss_details_missing_key:
  "source_path \<noteq> [] \<Longrightarrow>
   map_of kvs ''server_password'' = None \<or> map_of kvs ''server_port'' = None \<Longrightarrow>
   \<exists>ks. ks \<noteq> [] \<and>
     update_wss_details str_to_int w source_path (Parsed (JObj kvs))
       = ((False, MissingKeys ks), w)"
  by (auto simp add: update_wss_details_def missing_keys_def)

lemma update_wss_details_loaded:
  "fst (fst (update_wss_details str_to_int w source_path f)) \<Longrightarrow>
   fst (update_wss_details str_to_int w source_path f) = (True, Loaded)
   \<and> IP (snd (update_wss_details str_to_int w source_path f)) = ''localhost''"
  by (auto simp add: update_wss_details_def Let_def
           split: config_file.splits sum.splits if_splits)

text \<open>
  C5. The claim is that a rejected load leaves the triple \<open>{IP, PORT, PW}\<close> unchanged. The
  function assigns \<open>PW\<close> before it converts \<open>server_port\<close>: with both keys present and
  \<open>server_port\<close> holding \<open>null\<close>, the conversion raises, the load is rejected, and the
  password has already been replaced.
\<close>

theorem update_wss_details_rejected_load_changes_password:
  "update_wss_details str_to_int
     \<lparr> IP = ''localhost'', PORT = 4455, PW = JStr ''old-secret'' \<rparr>
     ''/home/user/wss.json''
     (Parsed (JObj [(''server_password'', JStr ''new-secret''), (''server_port'', JNull)]))
   = ((False, ErrorMsg TypeError),
      \<lparr> IP = ''localhost'', PORT = 4455, PW = JStr ''new-secret'' \<rparr>)"
  by (simp add: update_wss_details_def missing_keys_def py_get_default_def dict_lookup_def)

section \<open>Properties of the HTTP control service: the file routes\<close>

text \<open>
  C1, as the claim states it, fails on the code in three ways, each shown at a request
  under the root \<open>/srv/obs\<close>. The folder \<open>.\<close> resolves to the root itself, which is not
  a strict descendant of the root, and the list route goes on to the file system.
  The save route checks the folder only: with the folder \<open>profiles\<close> and the file name
  \<open>../../x.json\<close> the path resolves to \<open>/srv/x.json\<close> and the file is written there.
  The check compares text: the folder \<open>../obs-backup\<close> resolves to \<open>/srv/obs-backup\<close>,
  which begins with the text of the root, and the list route goes on to the file system.
\<close>

theorem file_routes_admit_paths_outside_root:
  "normpath (path_join ''/srv/obs'' ''.'') = ''/srv/obs''
   \<and> do_GET ''/srv/obs'' WSS_DETAILS_initial
        \<lparr> files = [], dirs = [''/srv/obs''], denied = (\<lambda>p. False) \<rparr>
        \<lparr> url_path = ''/api/file/list'', query = [(''folder'', ''.'')],
          req_body = Inl ValueError \<rparr>
      = (Reply 200 (JsonBody (JList [])), [Exists ''/srv/obs/.''])
   \<and> normpath (path_join (path_join ''/srv/obs'' ''profiles'') ''../../x.json'')
      = ''/srv/x.json''
   \<and> reply (do_POST (\<lambda>d. ''{}'') True ''/srv/obs''
        \<lparr> attr_osc_manager = None, attr_midi_manager = False \<rparr> \<lparr> clients = [] \<rparr>
        \<lparr> files = [], dirs = [''/srv/obs'', ''/srv/obs/profiles''], denied = (\<lambda>p. False) \<rparr>
        \<lparr> url_path = ''/api/file/save'', query = [],
          req_body = Inr (JObj [(''folder'', JStr ''profiles''),
                                (''filename'', JStr ''../../x.json''),
                                (''data'', JObj [])]) \<rparr>)
      = Reply 200 (JsonBody (JObj [(''success'', JBool True),
                                   (''path'', JStr ''/srv/obs/profiles/../../x.json'')]))
   \<and> fs_calls (do_POST (\<lambda>d. ''{}'') True ''/srv/obs''
        \<lparr> attr_osc_manager = None, attr_midi_manager = False \<rparr> \<lparr> clients = [] \<rparr>
        \<lparr> files = [], dirs = [''/srv/obs'', ''/srv/obs/profiles''], denied = (\<lambda>p. False) \<rparr>
        \<lparr> url_path = ''/api/file/save'', query = [],
          req_body = Inr (JObj [(''folder'', JStr ''profiles''),
                                (''filename'', JStr ''../../x.json''),
                                (''data'', JObj [])]) \<rparr>)
      = [Exists ''/srv/obs/profiles'', OpenWrite ''/srv/obs/profiles/../../x.json'']
   \<and> normpath (path_join ''/srv/obs'' ''../obs-backup'') = ''/srv/obs-backup''
   \<and> do_GET ''/srv/obs'' WSS_DETAILS_initial
        \<lparr> files = [], dirs = [''/srv/obs''], denied = (\<lambda>p. False) \<rparr>
        \<lparr> url_path = ''/api/file/list'', query = [(''folder'', ''../obs-backup'')],
          req_body = Inl ValueError \<rparr>
      = (Reply 200 (JsonBody (JList [])), [Exists ''/srv/obs/../obs-backup''])"
  by (simp add: do_GET_def get_file_list_def query_first_def path_join_def normpath_def
        initial_slashes_def norm_step_def startswith_def endswith_def os_path_exists_def
        do_POST_def post_file_save_def obj_get_def dict_lookup_def write_and_reply_def
        open_write_def answer_def Let_def)

text \<open>
  C1, amended. On the list and get routes, a request whose joined path, normalized as
  text (symbolic links are not resolved), does not begin with the root is answered 403
  with no call to the file system; on the save route the same holds for the normalized
  target directory \<open>root/folder\<close>. The root itself is admitted.
\<close>

theorem file_routes_reject_before_filesystem:
  "(url_path rq = ''/api/file/list''
      \<and> query_first (query rq) ''folder'' = Some folder \<and> folder \<noteq> []
      \<and> \<not> startswith (normpath (path_join SCRIPT_DIR folder)) SCRIPT_DIR
    \<longrightarrow> do_GET SCRIPT_DIR w fs rq = (Reply 403 (ErrorBody (Msg ''Access denied'')), []))
   \<and> (url_path rq = ''/api/file/get''
      \<and> query_first (query rq) ''folder'' = Some folder \<and> folder \<noteq> []
      \<and> query_first (query rq) ''filename'' = Some filename \<and> filename \<noteq> []
      \<and> \<not> startswith (normpath (path_join (path_join SCRIPT_DIR folder) filename)) SCRIPT_DIR
    \<longrightarrow> do_GET SCRIPT_DIR w fs rq = (Reply 403 (ErrorBody (Msg ''Access denied'')), []))
   \<and> (url_path rq = ''/api/file/save''
      \<and> req_body rq = Inr (JObj kvs)
      \<and> obj_get kvs ''folder'' = JStr folder \<and> folder \<noteq> []
      \<and> obj_get kvs ''filename'' = JStr filename \<and> filename \<noteq> []
      \<and> obj_get kvs ''data'' \<noteq> JNull
      \<and> \<not> startswith (normpath (path_join SCRIPT_DIR folder)) SCRIPT_DIR
    \<longrightarrow> reply (do_POST json_dump udp_ok SCRIPT_DIR obs m fs rq)
          = Reply 403 (ErrorBody (Msg ''Access denied: Path outside root''))
        \<and> fs_calls (do_POST json_dump udp_ok SCRIPT_DIR obs m fs rq) = []
        \<and> fs_after (do_POST json_dump udp_ok SCRIPT_DIR obs m fs rq) = fs)"
  by (simp add: do_GET_def get_file_list_def get_file_get_def do_POST_def
        post_file_save_def answer_def Let_def)

theorem file_routes_reject_before_filesystem_witness:
  "do_GET ''/srv/obs'' WSS_DETAILS_initial
        \<lparr> files = [], dirs = [''/srv/obs''], denied = (\<lambda>p. False) \<rparr>
        \<lparr> url_path = ''/api/file/list'', query = [(''folder'', ''../../etc'')],
          req_body = Inl ValueError \<rparr>
     = (Reply 403 (ErrorBody (Msg ''Access denied'')), [])
   \<and> do_GET ''/srv/obs'' WSS_DETAILS_initial
        \<lparr> files = [], dirs = [''/srv/obs''], denied = (\<lambda>p. False) \<rparr>
        \<lparr> url_path = ''/api/file/get'',
          query = [(''folder'', ''profiles''), (''filename'', ''../../x.json'')],
          req_body = Inl ValueError \<rparr>
     = (Reply 403 (ErrorBody (Msg ''Access denied'')), [])
   \<and> fs_calls (do_POST (\<lambda>d. ''{}'') True ''/srv/obs''
        \<lparr> attr_osc_manager = None, attr_midi_manager = False \<rparr> \<lparr> clients = [] \<rparr>
        \<lparr> files = [], dirs = [''/srv/obs''], denied = (\<lambda>p. False) \<rparr>
        \<lparr> url_path = ''/api/file/save'', query = [],
          req_body = Inr (JObj [(''folder'', JStr ''../../etc''),
                                (''filename'', JStr ''passwd''),
                                (''data'', JObj [])]) \<rparr>)
     = []"
  using
    file_routes_reject_before_filesystem
      [of "\<lparr> url_path = ''/api/file/list'', query = [(''folder'', ''../../etc'')],
              req_body = Inl ValueError \<rparr>"
          "''../../etc''" "''/srv/obs''" WSS_DETAILS_initial
          "\<lparr> files = [], dirs = [''/srv/obs''], denied = (\<lambda>p. False) \<rparr>"]
    file_routes_reject_before_filesystem
      [of "\<lparr> url_path = ''/api/file/get'',
              query = [(''folder'', ''profiles''), (''filename'', ''../../x.json'')],
              req_body = Inl ValueError \<rparr>"
          "''profiles''" "''/srv/obs''" WSS_DETAILS_initial
          "\<lparr> files = [], dirs = [''/srv/obs''], denied = (\<lambda>p. False) \<rparr>"
          "''../../x.json''"]
    file_routes_reject_before_filesystem
      [of "\<lparr> url_path = ''/api/file/save'', query = [],
              req_body = Inr (JObj [(''folder'', JStr ''../../etc''),
                                    (''filename'', JStr ''passwd''),
                                    (''data'', JObj [])]) \<rparr>"
          "''../../etc''" "''/srv/obs''" WSS_DETAILS_initial
          "\<lparr> files = [], dirs = [''/srv/obs''], denied = (\<lambda>p. False) \<rparr>"
          "''passwd''"
          "[(''folder'', JStr ''../../etc''), (''filename'', JStr ''passwd''),
            (''data'', JObj [])]"
          "\<lambda>d. ''{}''" True
          "\<lparr> attr_osc_manager = None, attr_midi_manager = False \<rparr>" "\<lparr> clients = [] \<rparr>"]
  by (simp add: query_first_def path_join_def normpath_def initial_slashes_def
        norm_step_def startswith_def endswith_def obj_get_def dict_lookup_def Let_def)

lemma write_and_reply_ok:
  "\<not> denied fs p \<Longrightarrow> p \<notin> set (dirs fs) \<Longrightarrow>
   write_and_reply json_dump fs calls p data =
     answer (fs\<lparr>files := (p, json_dump data) # files fs\<rparr>)
       (Reply 200 (JsonBody (JObj [(''success'', JBool True), (''path'', JStr p)])))
       (calls @ [OpenWrite p])"
  by (simp add: write_and_reply_def open_write_def)

lemma post_file_save_ok:
  assumes "req_body rq = Inr (JObj kvs)"
    and "obj_get kvs ''folder'' = JStr folder" and "folder \<noteq> []"
    and "obj_get kvs ''filename'' = JStr filename" and "filename \<noteq> []"
    and "obj_get kvs ''data'' \<noteq> JNull"
    and "startswith (normpath (path_join SCRIPT_DIR folder)) SCRIPT_DIR"
    and "\<not> denied fs (path_join SCRIPT_DIR folder)"
    and "\<not> denied fs full_path" and "full_path \<notin> set (dirs fs)"
    and "full_path \<noteq> path_join SCRIPT_DIR folder"
    and "full_path = path_join (path_join SCRIPT_DIR folder)
                       (if endswith filename ''.json'' then filename else filename @ ''.json'')"
  shows "reply (post_file_save json_dump SCRIPT_DIR fs rq)
           = Reply 200 (JsonBody (JObj [(''success'', JBool True), (''path'', JStr full_path)]))
       \<and> files (fs_after (post_file_save json_dump SCRIPT_DIR fs rq))
           = (full_path, json_dump (obj_get kvs ''data'')) # files fs
       \<and> denied (fs_after (post_file_save json_dump SCRIPT_DIR fs rq)) = denied fs"
  using assms
  by (cases "endswith filename ''.json''";
      cases "os_path_exists fs (path_join SCRIPT_DIR folder)";
      simp add: post_file_save_def Let_def write_and_reply_ok answer_def os_makedirs_def)

text \<open>
  C8. A save whose folder and file name stay inside the root (the normalized target
  directory and the normalized full path both begin with the root, which is what the
  handlers check), on a file system that lets the directory be created and the file be
  written, is answered 200 with the path of the file; the file holds \<open>json.dump(data,
  indent=2)\<close>, its name carries the suffix \<open>.json\<close>, appended when the request's name
  lacks it; and a following get of the same folder and the saved file name is answered
  200 with exactly the bytes that were written.
\<close>

theorem save_then_get_round_trip:
  assumes "url_path rq = ''/api/file/save''"
    and "req_body rq = Inr (JObj kvs)"
    and "obj_get kvs ''folder'' = JStr folder" and "folder \<noteq> []"
    and "obj_get kvs ''filename'' = JStr filename" and "filename \<noteq> []"
    and "obj_get kvs ''data'' \<noteq> JNull"
    and "saved_name = (if endswith filename ''.json'' then filename else filename @ ''.json'')"
    and "full_path = path_join (path_join SCRIPT_DIR folder) saved_name"
    and "startswith (normpath (path_join SCRIPT_DIR folder)) SCRIPT_DIR"
    and "startswith (normpath full_path) SCRIPT_DIR"
    and "\<not> denied fs (path_join SCRIPT_DIR folder)"
    and "\<not> denied fs full_path" and "full_path \<notin> set (dirs fs)"
    and "full_path \<noteq> path_join SCRIPT_DIR folder"
    and "url_path rq' = ''/api/file/get''"
    and "query_first (query rq') ''folder'' = Some folder"
    and "query_first (query rq') ''filename'' = Some saved_name"
  shows "reply (do_POST json_dump udp_ok SCRIPT_DIR obs m fs rq)
           = Reply 200 (JsonBody (JObj [(''success'', JBool True), (''path'', JStr full_path)]))
       \<and> endswith saved_name ''.json''
       \<and> map_of (files (fs_after (do_POST json_dump udp_ok SCRIPT_DIR obs m fs rq))) full_path
           = Some (json_dump (obj_get kvs ''data''))
       \<and> do_GET SCRIPT_DIR w (fs_after (do_POST json_dump udp_ok SCRIPT_DIR obs m fs rq)) rq'
           = (Reply 200 (RawBody (json_dump (obj_get kvs ''data''))),
              [Exists full_path, OpenRead full_path])"
proof -
  let ?fs' = "fs_after (do_POST json_dump udp_ok SCRIPT_DIR obs m fs rq)"
  have p: "do_POST json_dump udp_ok SCRIPT_DIR obs m fs rq
             = post_file_save json_dump SCRIPT_DIR fs rq"
    using assms(1) by (simp add: do_POST_def)
  have fp: "full_path = path_join (path_join SCRIPT_DIR folder)
                       (if endswith filename ''.json'' then filename else filename @ ''.json'')"
    using assms(8,9) by simp
  from post_file_save_ok[OF assms(2,3,4,5,6,7,10,12,13,14,15) fp, of json_dump]
  have r: "reply (do_POST json_dump udp_ok SCRIPT_DIR obs m fs rq)
           = Reply 200 (JsonBody (JObj [(''success'', JBool True), (''path'', JStr full_path)]))"
    and f: "files ?fs' = (full_path, json_dump (obj_get kvs ''data'')) # files fs"
    and d: "denied ?fs' = denied fs"
    by (simp_all add: p)
  have s: "endswith saved_name ''.json''"
    using assms(8) by (simp add: endswith_def)
  have sn: "saved_name \<noteq> []" using s by (auto simp add: endswith_def)
  have ex: "os_path_exists ?fs' full_path" by (simp add: os_path_exists_def f)
  have rd: "open_read ?fs' full_path = Inr (json_dump (obj_get kvs ''data''))"
    using assms(13) by (simp add: open_read_def f d)
  have g: "do_GET SCRIPT_DIR w ?fs' rq'
           = (Reply 200 (RawBody (json_dump (obj_get kvs ''data''))),
              [Exists full_path, OpenRead full_path])"
    using assms(4,9,11,16,17,18) sn ex rd
    by (simp add: do_GET_def get_file_get_def Let_def)
  from r s f g show ?thesis by simp
qed

theorem save_then_get_round_trip_witness:
  "do_GET ''/srv/obs'' WSS_DETAILS_initial
     (fs_after (do_POST (\<lambda>d. ''{}'') True ''/srv/obs''
        \<lparr> attr_osc_manager = None, attr_midi_manager = False \<rparr> \<lparr> clients = [] \<rparr>
        \<lparr> files = [], dirs = [''/srv/obs''], denied = (\<lambda>p. False) \<rparr>
        \<lparr> url_path = ''/api/file/save'', query = [],
          req_body = Inr (JObj [(''folder'', JStr ''profiles''),
                                (''filename'', JStr ''scene''),
                                (''data'', JObj [])]) \<rparr>))
     \<lparr> url_path = ''/api/file/get'',
       query = [(''folder'', ''profiles''), (''filename'', ''scene.json'')],
       req_body = Inl ValueError \<rparr>
   = (Reply 200 (RawBody ''{}''),
      [Exists ''/srv/obs/profiles/scene.json'', OpenRead ''/srv/obs/profiles/scene.json''])"
  using save_then_get_round_trip
    [of "\<lparr> url_path = ''/api/file/save'', query = [],
          req_body = Inr (JObj [(''folder'', JStr ''profiles''),
                                (''filename'', JStr ''scene''),
                                (''data'', JObj [])]) \<rparr>"
        "[(''folder'', JStr ''profiles''), (''filename'', JStr ''scene''),
          (''data'', JObj [])]"
        "''profiles''" "''scene''" "''scene.json''" "''/srv/obs/profiles/scene.json''"
        "''/srv/obs''"
        "\<lparr> files = [], dirs = [''/srv/obs''], denied = (\<lambda>p. False) \<rparr>"
        "\<lparr> url_path = ''/api/file/get'',
           query = [(''folder'', ''profiles''), (''filename'', ''scene.json'')],
           req_body = Inl ValueError \<rparr>"
        "\<lambda>d. ''{}''" True
        "\<lparr> attr_osc_manager = None, attr_midi_manager = False \<rparr>" "\<lparr> clients = [] \<rparr>"
        WSS_DETAILS_initial]
  by (simp add: query_first_def path_join_def normpath_def initial_slashes_def
        norm_step_def startswith_def endswith_def obj_get_def dict_lookup_def Let_def)

section \<open>Properties of the MIDI service: loading\<close>

lemma str_of_nat_small:
  "str_of_nat 0 = ''0''" "str_of_nat (Suc 0) = ''1''" "str_of_nat 1 = ''1''"
  "str_of_nat 2 = ''2''" "str_of_nat (Suc (Suc 0)) = ''2''"
  by code_simp+

lemma of_char_digit: "d < 10 \<Longrightarrow> (of_char (digit_char d) :: nat) = 48 + d"
proof -
  assume d: "d < 10"
  have "(of_char (char_of (48 + d)) :: nat) = (48 + d) mod 256" by (rule of_char_of)
  also from d have "(48 + d) mod 256 = 48 + d" by (intro mod_less) linarith
  finally show ?thesis by (simp only: digit_char_def)
qed

lemma str_of_nat_fuel_value:
  "n \<le> f \<Longrightarrow> foldl (\<lambda>a c. 10 * a + (of_char c - 48)) (0::nat) (str_of_nat_fuel f n) = n"
proof (induction f arbitrary: n)
  case 0
  then have "n = 0" by simp
  then show ?case by (simp add: of_char_digit)
next
  case (Suc f)
  show ?case
  proof (cases "n < 10")
    case True
    then show ?thesis by (simp add: of_char_digit)
  next
    case False
    with Suc.prems have "n div 10 \<le> f" by linarith
    from Suc.IH[OF this] have
      v: "foldl (\<lambda>a c. 10 * a + (of_char c - 48)) (0::nat) (str_of_nat_fuel f (n div 10))
            = n div 10" .
    have m: "n mod 10 < 10" by simp
    from False v of_char_digit[OF m] show ?thesis by simp
  qed
qed

lemma str_of_nat_value:
  "foldl (\<lambda>a c. 10 * a + (of_char c - 48)) (0::nat) (str_of_nat n) = n"
  by (simp only: str_of_nat_def str_of_nat_fuel_value[OF order_refl])

lemma str_of_nat_inj: "str_of_nat i = str_of_nat j \<Longrightarrow> i = j"
proof -
  assume e: "str_of_nat i = str_of_nat j"
  have "i = foldl (\<lambda>a c. 10 * a + (of_char c - 48)) (0::nat) (str_of_nat i)"
    by (rule str_of_nat_value[symmetric])
  also have "\<dots> = foldl (\<lambda>a c. 10 * a + (of_char c - 48)) (0::nat) (str_of_nat j)"
    by (rule arg_cong[OF e])
  also have "\<dots> = j" by (rule str_of_nat_value)
  finally show ?thesis .
qed

lemma load_devices_all_missing:
  "distinct is \<Longrightarrow>
   \<forall>i \<in> set is. strs st (''midi_port_name_'' @ str_of_nat i) \<notin> set ports \<Longrightarrow>
   \<exists>st'. load_devices ports is st devs = Inr (st', devs)
     \<and> (\<forall>i \<in> set is. strs st' (''midi_port_name_'' @ str_of_nat i) = ''---'')
     \<and> (\<forall>k. (\<forall>i \<in> set is. k \<noteq> ''midi_port_name_'' @ str_of_nat i) \<longrightarrow> strs st' k = strs st k)"
proof (induction "is" arbitrary: st)
  case Nil
  then show ?case by simp
next
  case (Cons j js)
  let ?key = "\<lambda>i. ''midi_port_name_'' @ str_of_nat i"
  let ?st1 = "obs_data_set_string st (?key j) ''---''"
  have ne: "?key i \<noteq> ?key j" if "i \<in> set js" for i
  proof
    assume "?key i = ?key j"
    then have "str_of_nat i = str_of_nat j" by simp
    then have "i = j" by (rule str_of_nat_inj)
    with that Cons.prems(1) show False by simp
  qed
  have m: "\<forall>i \<in> set js. strs ?st1 (?key i) \<notin> set ports"
  proof
    fix i assume i: "i \<in> set js"
    with Cons.prems(2) have "strs st (?key i) \<notin> set ports" by simp
    with ne[OF i] show "strs ?st1 (?key i) \<notin> set ports"
      by (simp add: obs_data_set_string_def)
  qed
  from Cons.prems(1) have "distinct js" by simp
  from Cons.IH[OF this m] obtain st' where
    r: "load_devices ports js ?st1 devs = Inr (st', devs)"
    and c: "\<forall>i \<in> set js. strs st' (?key i) = ''---''"
    and p: "\<forall>k. (\<forall>i \<in> set js. k \<noteq> ?key i) \<longrightarrow> strs st' k = strs ?st1 k"
    by blast
  from Cons.prems(2) have nf: "obs_data_get_string st (?key j) \<notin> set ports"
    by (simp add: obs_data_get_string_def)
  have r': "load_devices ports (j # js) st devs = Inr (st', devs)"
    using nf r by (simp add: Let_def)
  have "\<forall>i \<in> set js. ?key j \<noteq> ?key i"
  proof
    fix i assume "i \<in> set js"
    from ne[OF this] show "?key j \<noteq> ?key i" by (rule not_sym)
  qed
  with p have "strs st' (?key j) = strs ?st1 (?key j)" by blast
  then have cj: "strs st' (?key j) = ''---''" by (simp add: obs_data_set_string_def)
  have p': "\<forall>k. (\<forall>i \<in> set (j # js). k \<noteq> ?key i) \<longrightarrow> strs st' k = strs st k"
  proof (intro allI impI)
    fix k assume k: "\<forall>i \<in> set (j # js). k \<noteq> ?key i"
    then have "\<forall>i \<in> set js. k \<noteq> ?key i" and kj: "k \<noteq> ?key j" by simp_all
    with p have "strs st' k = strs ?st1 k" by blast
    with kj show "strs st' k = strs st k" by (simp add: obs_data_set_string_def)
  qed
  from r' c cj p' show ?case by simp
qed

lemma load_devices_found_run:
  "\<forall>i \<in> set is. strs st (''midi_port_name_'' @ str_of_nat i) \<in> set ports \<Longrightarrow>
   is = [length devs ..< length devs + length is] \<Longrightarrow>
   load_devices ports (is @ rest) st devs =
     load_devices ports rest st
       (devs @ map (\<lambda>i. new_device_from_settings st i
                          (strs st (''midi_port_name_'' @ str_of_nat i))) is)"
proof (induction "is" arbitrary: devs)
  case Nil
  then show ?case by simp
next
  case (Cons j js)
  let ?nd = "new_device_from_settings st j (strs st (''midi_port_name_'' @ str_of_nat j))"
  have "[length devs ..< length devs + length (j # js)]
          = length devs # [Suc (length devs) ..< length devs + length (j # js)]"
    by (rule upt_conv_Cons) simp
  with Cons.prems(2) have
    "j # js = length devs # [Suc (length devs) ..< Suc (length devs) + length js]"
    by simp
  then have j: "j = length devs"
    and js: "js = [length (devs @ [?nd]) ..< length (devs @ [?nd]) + length js]"
    by simp_all
  from Cons.prems(1) have f: "strs st (''midi_port_name_'' @ str_of_nat j) \<in> set ports"
    and fs: "\<forall>i \<in> set js. strs st (''midi_port_name_'' @ str_of_nat i) \<in> set ports"
    by simp_all
  from Cons.IH[OF fs js, of ] have
    "load_devices ports (js @ rest) st (devs @ [?nd]) =
       load_devices ports rest st
         ((devs @ [?nd]) @ map (\<lambda>i. new_device_from_settings st i
                          (strs st (''midi_port_name_'' @ str_of_nat i))) js)" .
  with f j show ?case by (simp add: Let_def obs_data_get_string_def)
qed


lemma new_device_port_name: "port_name (new_device_from_settings st i pn) = Some pn"
  by (simp add: new_device_from_settings_def MidiDevice_init_def Let_def)

lemma start_stop_port_name:
  "port_name (start_midi_device drv ports (stop_midi_device drv d)) = port_name d"
  by (simp add: start_midi_device_def stop_midi_device_def Let_def split: option.splits)

text \<open>
  C6, as the claim states it, fails in both of its parts. With one configured device
  whose saved port name is not enumerated, the load completes with an empty device table,
  so the device is not kept as a stub. And the load does not complete for every mix of
  found and missing names: with a missing name at index 0 and a found one at index 1, the
  source appends the device and then reads \<open>midi_devices[1]\<close>, which raises.
\<close>

theorem midi_load_keeps_no_stub:
  "map_sum id midi_devices
     (midi_script_load (\<lambda>c. True) (Inr [''Launchpad''])
        (midi_globals_initial
           \<lparr> strs = (\<lambda>k. if k = ''midi_port_name_0'' then ''nanoKONTROL2'' else []),
          ints = (\<lambda>k. if k = ''number_of_devices'' then 1 else 0) \<rparr>)
        \<lparr> strs = (\<lambda>k. if k = ''midi_port_name_0'' then ''nanoKONTROL2'' else []),
          ints = (\<lambda>k. if k = ''number_of_devices'' then 1 else 0) \<rparr>)
   = Inr []
   \<and> midi_script_load (\<lambda>c. True) (Inr [''Launchpad''])
        (midi_globals_initial
           \<lparr> strs = (\<lambda>k. if k = ''midi_port_name_0'' then ''nanoKONTROL2''
                        else if k = ''midi_port_name_1'' then ''Launchpad'' else []),
          ints = (\<lambda>k. if k = ''number_of_devices'' then 2 else 0) \<rparr>)
        \<lparr> strs = (\<lambda>k. if k = ''midi_port_name_0'' then ''nanoKONTROL2''
                        else if k = ''midi_port_name_1'' then ''Launchpad'' else []),
          ints = (\<lambda>k. if k = ''number_of_devices'' then 2 else 0) \<rparr>
   = Inl IndexError"
  by (simp add: midi_script_load_def midi_globals_initial_def obs_data_get_int_def
        obs_data_get_string_def obs_data_set_string_def str_of_nat_small
        numeral_2_eq_2 upt_rec)

text \<open>
  C6, amended. When no configured device with an enumerated port name comes after one
  whose port name is not enumerated, the load of the MIDI script completes without
  error; the device table then holds, in order, one device for each configured index
  whose saved port name is enumerated, carrying that name, and no entry for the others;
  and every saved port name that is not enumerated has been replaced by \<open>---\<close>.
\<close>

theorem midi_load_found_before_missing:
  fixes st :: settings and enumerated :: "exn + string list"
  defines "ports \<equiv> (case enumerated of Inl e \<Rightarrow> [] | Inr ps \<Rightarrow> ps)"
    and "n \<equiv> nat (obs_data_get_int st ''number_of_devices'')"
    and "saved \<equiv> \<lambda>i. obs_data_get_string st (''midi_port_name_'' @ str_of_nat i)"
  assumes order: "\<forall>i j. i < j \<and> j < n \<and> saved j \<in> set ports \<longrightarrow> saved i \<in> set ports"
  shows "\<exists>g. midi_script_load drv enumerated (midi_globals_initial st0) st = Inr g
           \<and> midi_ports_in g = ports
           \<and> map port_name (midi_devices g)
               = map (\<lambda>i. Some (saved i)) (filter (\<lambda>i. saved i \<in> set ports) [0 ..< n])
           \<and> (\<forall>i < n. saved i \<notin> set ports \<longrightarrow>
                 obs_data_get_string (script_settings g)
                   (''midi_port_name_'' @ str_of_nat i) = ''---'')"
proof -
  define k where "k = (LEAST i. i = n \<or> saved i \<notin> set ports)"
  have kp: "k = n \<or> saved k \<notin> set ports"
    unfolding k_def by (rule LeastI[of "\<lambda>i. i = n \<or> saved i \<notin> set ports" n]) simp
  have kle: "k \<le> n"
    unfolding k_def by (rule Least_le) simp
  have found: "saved i \<in> set ports" if "i < k" for i
  proof (rule ccontr)
    assume "saved i \<notin> set ports"
    then have "k \<le> i" unfolding k_def by (intro Least_le) simp
    with that show False by simp
  qed
  have missing: "saved i \<notin> set ports" if "k \<le> i" "i < n" for i
  proof (cases "i = k")
    case True
    with that kp show ?thesis by auto
  next
    case False
    with that have ki: "k < i" by simp
    from that ki have kn: "k < n" by simp
    with kp have nk: "saved k \<notin> set ports" by simp
    show ?thesis
    proof
      assume "saved i \<in> set ports"
      with order ki that(2) have "saved k \<in> set ports" by blast
      with nk show False by simp
    qed
  qed
  have split: "[0 ..< n] = [0 ..< k] @ [k ..< n]"
  proof -
    have "[0 ..< k + (n - k)] = [0 ..< k] @ [k ..< k + (n - k)]"
      by (rule upt_add_eq_append) simp
    with kle show ?thesis by simp
  qed
  let ?D = "map (\<lambda>i. new_device_from_settings st i
                          (strs st (''midi_port_name_'' @ str_of_nat i))) [0 ..< k]"
  have f1: "\<forall>i \<in> set [0 ..< k]. strs st (''midi_port_name_'' @ str_of_nat i) \<in> set ports"
    using found by (simp add: saved_def obs_data_get_string_def)
  have f2: "[0 ..< k] = [length ([] :: midi_device list)
                          ..< length ([] :: midi_device list) + length [0 ..< k]]"
    by simp
  have run: "load_devices ports ([0 ..< k] @ [k ..< n]) st [] = load_devices ports [k ..< n] st ?D"
    using load_devices_found_run[OF f1 f2, of "[k ..< n]"] by simp
  have m1: "\<forall>i \<in> set [k ..< n]. strs st (''midi_port_name_'' @ str_of_nat i) \<notin> set ports"
    using missing by (simp add: saved_def obs_data_get_string_def)
  from load_devices_all_missing[OF distinct_upt m1, of ?D] obtain st' where
    r: "load_devices ports [k ..< n] st ?D = Inr (st', ?D)"
    and c: "\<forall>i \<in> set [k ..< n]. strs st' (''midi_port_name_'' @ str_of_nat i) = ''---''"
    by blast
  let ?g = "\<lparr> midi_ports_in = ports,
             midi_devices = map (start_midi_device drv ports) (map (stop_midi_device drv) ?D),
             script_settings = st',
             midi_manager_registered = True \<rparr>"
  have load: "midi_script_load drv enumerated (midi_globals_initial st0) st = Inr ?g"
    using run r split
    by (cases enumerated)
       (simp_all add: midi_script_load_def midi_globals_initial_def ports_def n_def)
  have fl: "filter (\<lambda>i. saved i \<in> set ports) [0 ..< n] = [0 ..< k]"
  proof -
    have "filter (\<lambda>i. saved i \<in> set ports) [0 ..< k] = [0 ..< k]"
      using found by (intro filter_True) simp
    moreover have "filter (\<lambda>i. saved i \<in> set ports) [k ..< n] = []"
      using missing by (intro filter_False) simp
    ultimately show ?thesis by (simp only: split filter_append append_Nil2)
  qed
  have tab: "map port_name (midi_devices ?g) = map (\<lambda>i. Some (saved i)) [0 ..< k]"
    by (simp add: start_stop_port_name new_device_port_name saved_def obs_data_get_string_def
          comp_def)
  have cl: "\<forall>i < n. saved i \<notin> set ports \<longrightarrow>
              obs_data_get_string (script_settings ?g) (''midi_port_name_'' @ str_of_nat i) = ''---''"
  proof (intro allI impI)
    fix i assume i: "i < n" and ms: "saved i \<notin> set ports"
    have "k \<le> i"
    proof (rule ccontr)
      assume "\<not> k \<le> i"
      then have "i < k" by simp
      from found[OF this] ms show False by simp
    qed
    with i have "i \<in> set [k ..< n]" by simp
    with c show "obs_data_get_string (script_settings ?g) (''midi_port_name_'' @ str_of_nat i) = ''---''"
      by (simp add: obs_data_get_string_def)
  qed
  from load fl tab cl show ?thesis
    by (intro exI[of _ ?g]) (simp only: simp_thms midi_globals.simps)
qed


theorem midi_load_found_before_missing_witness:
  "map port_name (midi_devices (projr
     (midi_script_load (\<lambda>c. True) (Inr [''Launchpad''])
        (midi_globals_initial
           \<lparr> strs = (\<lambda>k. if k = ''midi_port_name_0'' then ''Launchpad''
                        else if k = ''midi_port_name_1'' then ''nanoKONTROL2'' else []),
          ints = (\<lambda>k. if k = ''number_of_devices'' then 2 else 0) \<rparr>)
        \<lparr> strs = (\<lambda>k. if k = ''midi_port_name_0'' then ''Launchpad''
                        else if k = ''midi_port_name_1'' then ''nanoKONTROL2'' else []),
          ints = (\<lambda>k. if k = ''number_of_devices'' then 2 else 0) \<rparr>)))
   = [Some ''Launchpad'']
   \<and> obs_data_get_string (script_settings (projr
     (midi_script_load (\<lambda>c. True) (Inr [''Launchpad''])
        (midi_globals_initial
           \<lparr> strs = (\<lambda>k. if k = ''midi_port_name_0'' then ''Launchpad''
                        else if k = ''midi_port_name_1'' then ''nanoKONTROL2'' else []),
          ints = (\<lambda>k. if k = ''number_of_devices'' then 2 else 0) \<rparr>)
        \<lparr> strs = (\<lambda>k. if k = ''midi_port_name_0'' then ''Launchpad''
                        else if k = ''midi_port_name_1'' then ''nanoKONTROL2'' else []),
          ints = (\<lambda>k. if k = ''number_of_devices'' then 2 else 0) \<rparr>)))
       ''midi_port_name_1''
   = ''---''"
  using midi_load_found_before_missing
    [of "\<lparr> strs = (\<lambda>k. if k = ''midi_port_name_0'' then ''Launchpad''
                        else if k = ''midi_port_name_1'' then ''nanoKONTROL2'' else []),
          ints = (\<lambda>k. if k = ''number_of_devices'' then 2 else 0) \<rparr>"
        "Inr [''Launchpad'']" "\<lambda>c. True"
        "\<lparr> strs = (\<lambda>k. if k = ''midi_port_name_0'' then ''Launchpad''
                        else if k = ''midi_port_name_1'' then ''nanoKONTROL2'' else []),
          ints = (\<lambda>k. if k = ''number_of_devices'' then 2 else 0) \<rparr>"]
  by (simp add: midi_script_load_def midi_globals_initial_def obs_data_get_int_def
        obs_data_get_string_def obs_data_set_string_def str_of_nat_small
        new_device_from_settings_def MidiDevice_init_def start_midi_device_def
        stop_midi_device_def numeral_2_eq_2 upt_rec Let_def)

section \<open>Properties of the MIDI service: outbound send\<close>

lemma isspace_not_hex: "isspace c \<Longrightarrow> hexval c = None"
  by (auto simp add: isspace_def hexval_def)

lemma fromhex_sound:
  "fromhex t = Some bs \<Longrightarrow> spec_pair_up (filter (\<lambda>c. \<not> isspace c) t) = Some bs"
proof (induction t arbitrary: bs rule: fromhex.induct)
  case 1
  then show ?case by simp
next
  case (2 c)
  then show ?case by (simp split: if_splits)
next
  case (3 c d cs)
  show ?case
  proof (cases "isspace c")
    case True
    with 3 show ?thesis by simp
  next
    case False
    with "3.prems" obtain hi lo rest where
      h: "hexval c = Some hi" "hexval d = Some lo" "fromhex cs = Some rest"
         "bs = (hi * 16 + lo) # rest"
      by (auto split: option.splits)
    from h(2) have nd: "\<not> isspace d" using isspace_not_hex[of d] by auto
    have "spec_pair_up (filter (\<lambda>c. \<not> isspace c) cs) = Some rest"
      by (rule "3.IH"(2)[OF False refl h(1) h(2) h(3)])
    with False nd h show ?thesis by simp
  qed
qed

lemma fromhex_no_space:
  "\<forall>c \<in> set t. \<not> isspace c \<Longrightarrow> fromhex t = spec_pair_up t"
  by (induction t rule: fromhex.induct) (auto split: option.splits)

lemma filter_remove_spaces:
  "filter (\<lambda>c. \<not> isspace c) (remove_spaces s) = filter (\<lambda>c. \<not> isspace c) s"
proof -
  have "\<And>c. (c \<noteq> CHR '' '' \<and> \<not> isspace c) = (\<not> isspace c)"
    by (auto simp add: isspace_def)
  then show ?thesis by (simp add: remove_spaces_def)
qed

lemma fromhex_accepts_only_spec:
  "fromhex (remove_spaces s) = Some bs \<Longrightarrow> spec_hex_bytes s = Some bs"
  using fromhex_sound[of "remove_spaces s" bs]
  by (simp add: spec_hex_bytes_def filter_remove_spaces)

lemma bytearray_of_bytes:
  "\<forall>b \<in> set bs. b \<le> 255 \<Longrightarrow> bytearray_of_list (map (\<lambda>b. JInt (int b)) bs) = Some bs"
  by (induction bs) auto

lemma send_midi_api_live:
  assumes "next_device devs name = Some dev" and "midi_out dev \<noteq> None"
    and "\<forall>msg. drv (SendMessage msg)"
  shows "send_midi_api drv devs name data =
     (case data of
        JStr s \<Rightarrow> (case fromhex (remove_spaces s) of
                     None \<Rightarrow> (False, []) | Some message \<Rightarrow> (True, [message]))
      | JList xs \<Rightarrow> (case bytearray_of_list xs of
                     None \<Rightarrow> (False, []) | Some message \<Rightarrow> (True, [message]))
      | _ \<Rightarrow> (False, []))"
  using assms by (simp add: send_midi_api_def split: json.splits option.splits)

lemma map_option_append_Nil: "map_option ((@) []) x = x"
  by (cases x) simp_all

lemma join_groups_split:
  "join_groups (hex_groups cs) =
     (case spec_pair_up (takeWhile (\<lambda>x. \<not> isspace x) cs) of
        None \<Rightarrow> None
      | Some bs \<Rightarrow>
          map_option ((@) bs) (join_groups (hex_groups (dropWhile (\<lambda>x. \<not> isspace x) cs))))"
proof (cases cs)
  case Nil
  then show ?thesis by simp
next
  case (Cons e es)
  show ?thesis
  proof (cases "isspace e")
    case True
    then show ?thesis unfolding Cons by (simp add: map_option_append_Nil)
  next
    case False
    then show ?thesis unfolding Cons by (simp cong: option.case_cong)
  qed
qed

lemma fromhex_groups: "fromhex t = join_groups (hex_groups t)"
proof (induction t rule: fromhex.induct)
  case 1
  then show ?case by simp
next
  case (2 c)
  then show ?case by simp
next
  case (3 c d cs)
  show ?case
  proof (cases "isspace c")
    case True
    with 3 show ?thesis by simp
  next
    case nc: False
    show ?thesis
    proof (cases "isspace d")
      case True
      then have "hexval d = None" by (rule isspace_not_hex)
      with nc True show ?thesis by (simp split: option.splits)
    next
      case nd: False
      show ?thesis
      proof (cases "hexval c")
        case None
        with nc nd show ?thesis by simp
      next
        case hc: (Some hi)
        show ?thesis
        proof (cases "hexval d")
          case None
          with nc nd hc show ?thesis by simp
        next
          case hd: (Some lo)
          have ih: "fromhex cs = join_groups (hex_groups cs)"
            by (rule "3.IH"(2)[OF nc refl hc hd])
          show ?thesis
            using nc nd hc hd ih join_groups_split[of cs]
            by (cases "spec_pair_up (takeWhile (\<lambda>x. \<not> isspace x) cs)";
                cases "join_groups (hex_groups (dropWhile (\<lambda>x. \<not> isspace x) cs))";
                simp)
        qed
      qed
    qed
  qed
qed

lemma fromhex_is_amended_reading: "fromhex (remove_spaces s) = amended_hex_bytes s"
  by (simp add: amended_hex_bytes_def remove_spaces_def fromhex_groups)

lemma bytearray_of_list_shape:
  "bytearray_of_list xs =
     (if \<forall>x \<in> set xs. (\<exists>n. x = JInt n \<and> 0 \<le> n \<and> n \<le> 255) \<or> (\<exists>b. x = JBool b)
      then Some (map (\<lambda>x. case x of JInt n \<Rightarrow> nat n
                              | JBool b \<Rightarrow> (if b then 1 else 0) | _ \<Rightarrow> 0) xs)
      else None)"
proof (induction xs)
  case Nil
  then show ?case by simp
next
  case (Cons x xs)
  then show ?case by (cases x) (auto split: option.splits)
qed

text \<open>
  C7, as the claim states it, fails. The string of the digit 9, a tab and the digit 0 is
  a pair of hexadecimal digits with a separator, the byte 0x90 in the specification's
  reading, and it is rejected: \<open>bytearray.fromhex\<close> skips white space between pairs
  only, and the source removes only the space character before. And a list holding the
  JSON value \<open>true\<close>, which is not a byte value, is transmitted as the byte 1.
\<close>

theorem send_midi_api_rejects_tab_inside_pair:
  "spec_hex_bytes [CHR ''9'', CHR 0x09, CHR ''0''] = Some [0x90]
   \<and> send_midi_api (\<lambda>c. True)
     [\<lparr> device_name = ''MIDI Device 1'', port_name = Some ''Launchpad'',
        midi_in = Some (Opened 0), midi_out = Some (Opened 0),
        browser_source_name = ''overlay'', midi_event_name = ''midiDevice_0'' \<rparr>]
     (JStr ''midiDevice_0'') (JStr [CHR ''9'', CHR 0x09, CHR ''0''])
     = (False, [])
   \<and> send_midi_api (\<lambda>c. True)
     [\<lparr> device_name = ''MIDI Device 1'', port_name = Some ''Launchpad'',
        midi_in = Some (Opened 0), midi_out = Some (Opened 0),
        browser_source_name = ''overlay'', midi_event_name = ''midiDevice_0'' \<rparr>]
     (JStr ''midiDevice_0'') (JList [JBool True])
     = (True, [[1]])"
  by (simp add: spec_hex_bytes_def send_midi_api_def remove_spaces_def isspace_def hexval_def)

text \<open>
  C7, amended. For a device that is found by its event name and has an output handle, on
  a port that accepts what it is handed:
  a string is transmitted exactly when, once its space characters are dropped, it is
  groups of pairs of hexadecimal digits separated by other ASCII white space; the bytes
  of the pairs are then sent in order and the call returns \<open>True\<close>, and every other
  string gives \<open>False\<close> with nothing transmitted; whatever is transmitted for a string is
  the bytes the specification's reading gives it;
  a list is transmitted exactly when each element is an integer 0 to 255 or a boolean,
  as those integers (a boolean as 1 or 0), and any other list gives \<open>False\<close> with
  nothing transmitted; a list of integers 0 to 255 is transmitted as it is;
  any value that is neither a string nor a list gives \<open>False\<close> with nothing
  transmitted; and \<open>"90 3C 40"\<close> transmits the bytes 0x90, 0x3C, 0x40.
\<close>

theorem send_midi_api_groups_or_bytes:
  assumes "next_device devs name = Some dev" and "midi_out dev \<noteq> None"
    and "\<forall>msg. drv (SendMessage msg)"
  shows "(\<forall>s. send_midi_api drv devs name (JStr s) =
              (case amended_hex_bytes s of None \<Rightarrow> (False, []) | Some bs \<Rightarrow> (True, [bs])))
       \<and> (\<forall>s bs. send_midi_api drv devs name (JStr s) = (True, [bs]) \<longrightarrow>
              spec_hex_bytes s = Some bs)
       \<and> (\<forall>xs. send_midi_api drv devs name (JList xs) =
              (if \<forall>x \<in> set xs. (\<exists>n. x = JInt n \<and> 0 \<le> n \<and> n \<le> 255) \<or> (\<exists>b. x = JBool b)
               then (True, [map (\<lambda>x. case x of JInt n \<Rightarrow> nat n
                                       | JBool b \<Rightarrow> (if b then 1 else 0) | _ \<Rightarrow> 0) xs])
               else (False, [])))
       \<and> (\<forall>bs. (\<forall>b \<in> set bs. b \<le> 255) \<longrightarrow>
            send_midi_api drv devs name (JList (map (\<lambda>b. JInt (int b)) bs)) = (True, [bs]))
       \<and> (\<forall>d. (\<forall>s. d \<noteq> JStr s) \<and> (\<forall>xs. d \<noteq> JList xs) \<longrightarrow>
            send_midi_api drv devs name d = (False, []))
       \<and> send_midi_api drv devs name (JStr ''90 3C 40'') = (True, [[0x90, 0x3C, 0x40]])"
proof (intro conjI allI impI)
  fix s
  show "send_midi_api drv devs name (JStr s) =
          (case amended_hex_bytes s of None \<Rightarrow> (False, []) | Some bs \<Rightarrow> (True, [bs]))"
    by (simp add: send_midi_api_live[OF assms] fromhex_is_amended_reading)
next
  fix s bs assume "send_midi_api drv devs name (JStr s) = (True, [bs])"
  then have "fromhex (remove_spaces s) = Some bs"
    by (cases "fromhex (remove_spaces s)") (simp_all add: send_midi_api_live[OF assms])
  then show "spec_hex_bytes s = Some bs" by (rule fromhex_accepts_only_spec)
next
  fix xs
  show "send_midi_api drv devs name (JList xs) =
          (if \<forall>x \<in> set xs. (\<exists>n. x = JInt n \<and> 0 \<le> n \<and> n \<le> 255) \<or> (\<exists>b. x = JBool b)
           then (True, [map (\<lambda>x. case x of JInt n \<Rightarrow> nat n
                                   | JBool b \<Rightarrow> (if b then 1 else 0) | _ \<Rightarrow> 0) xs])
           else (False, []))"
  proof (cases "\<forall>x \<in> set xs. (\<exists>n. x = JInt n \<and> 0 \<le> n \<and> n \<le> 255) \<or> (\<exists>b. x = JBool b)")
    case True
    have "bytearray_of_list xs =
                 Some (map (\<lambda>x. case x of JInt n \<Rightarrow> nat n
                                  | JBool b \<Rightarrow> (if b then 1 else 0) | _ \<Rightarrow> 0) xs)"
      using if_P[OF True] by (simp only: bytearray_of_list_shape)
    with True show ?thesis by (simp add: send_midi_api_live[OF assms])
  next
    case False
    have "bytearray_of_list xs = None"
      using if_not_P[OF False] by (simp only: bytearray_of_list_shape)
    with False show ?thesis by (simp add: send_midi_api_live[OF assms])
  qed
next
  fix bs :: "nat list" assume "\<forall>b \<in> set bs. b \<le> 255"
  from bytearray_of_bytes[OF this]
  show "send_midi_api drv devs name (JList (map (\<lambda>b. JInt (int b)) bs)) = (True, [bs])"
    by (simp add: send_midi_api_live[OF assms])
next
  fix d assume "(\<forall>s. d \<noteq> JStr s) \<and> (\<forall>xs. d \<noteq> JList xs)"
  then show "send_midi_api drv devs name d = (False, [])"
    by (cases d) (simp_all add: send_midi_api_live[OF assms])
next
  have "fromhex (remove_spaces ''90 3C 40'') = Some [0x90, 0x3C, 0x40]"
    by (simp add: remove_spaces_def isspace_def hexval_def)
  then show "send_midi_api drv devs name (JStr ''90 3C 40'') = (True, [[0x90, 0x3C, 0x40]])"
    by (simp add: send_midi_api_live[OF assms])
qed

theorem send_midi_api_groups_or_bytes_witness:
  "send_midi_api (\<lambda>c. True)
     [\<lparr> device_name = ''MIDI Device 1'', port_name = Some ''Launchpad'',
        midi_in = Some (Opened 0), midi_out = Some (Opened 0),
        browser_source_name = ''overlay'', midi_event_name = ''midiDevice_0'' \<rparr>]
     (JStr ''midiDevice_0'') (JStr ''90 3C 40'')
   = (True, [[0x90, 0x3C, 0x40]])
   \<and> send_midi_api (\<lambda>c. True)
     [\<lparr> device_name = ''MIDI Device 1'', port_name = Some ''Launchpad'',
        midi_in = Some (Opened 0), midi_out = Some (Opened 0),
        browser_source_name = ''overlay'', midi_event_name = ''midiDevice_0'' \<rparr>]
     (JStr ''midiDevice_0'') (JList [JInt 144, JInt 60, JInt 256])
   = (False, [])
   \<and> send_midi_api (\<lambda>c. True)
     [\<lparr> device_name = ''MIDI Device 1'', port_name = Some ''Launchpad'',
        midi_in = Some (Opened 0), midi_out = Some (Opened 0),
        browser_source_name = ''overlay'', midi_event_name = ''midiDevice_0'' \<rparr>]
     (JStr ''midiDevice_0'') (JStr [CHR ''9'', CHR ''0'', CHR 0x09, CHR ''3'', CHR ''C''])
   = (True, [[0x90, 0x3C]])"
  using send_midi_api_groups_or_bytes
    [of "[\<lparr> device_name = ''MIDI Device 1'', port_name = Some ''Launchpad'',
        midi_in = Some (Opened 0), midi_out = Some (Opened 0),
        browser_source_name = ''overlay'', midi_event_name = ''midiDevice_0'' \<rparr>]"
        "JStr ''midiDevice_0''"
        "\<lparr> device_name = ''MIDI Device 1'', port_name = Some ''Launchpad'',
        midi_in = Some (Opened 0), midi_out = Some (Opened 0),
        browser_source_name = ''overlay'', midi_event_name = ''midiDevice_0'' \<rparr>"
        "\<lambda>c. True"]
  by (simp add: send_midi_api_def remove_spaces_def isspace_def hexval_def)

section \<open>Properties of the MIDI service: input callback\<close>

lemma midi_input_callback_empty_message:
  "midi_input_callback source_exists inject_ok device [] = Inl IndexError"
  by (simp add: midi_input_callback_def)

text \<open>
  C9. For every message with at least its status byte, the input callback returns without
  raising: it reports the status byte and the two data bytes, taking 0 for a data byte
  the message does not have, and when the injection into the browser source fails, the
  failure is logged, the source is released and nothing else happens.
\<close>

theorem midi_input_callback_never_raises:
  assumes "midi_data \<noteq> []"
  shows "(\<exists>rest. midi_input_callback source_exists inject_ok device midi_data =
            Inr (PrintMidiIn (hd midi_data)
                   (if 1 < length midi_data then midi_data ! 1 else 0)
                   (if 2 < length midi_data then midi_data ! 2 else 0) # rest))
       \<and> (length midi_data = 1 \<longrightarrow>
            (\<exists>rest. midi_input_callback source_exists inject_ok device midi_data =
               Inr (PrintMidiIn (hd midi_data) 0 0 # rest)))
       \<and> (length midi_data = 2 \<longrightarrow>
            (\<exists>rest. midi_input_callback source_exists inject_ok device midi_data =
               Inr (PrintMidiIn (hd midi_data) (midi_data ! 1) 0 # rest)))
       \<and> (browser_source_name device \<noteq> [] \<and> source_exists (browser_source_name device)
            \<and> \<not> inject_ok \<longrightarrow>
            midi_input_callback source_exists inject_ok device midi_data =
              Inr [PrintMidiIn (hd midi_data)
                     (if 1 < length midi_data then midi_data ! 1 else 0)
                     (if 2 < length midi_data then midi_data ! 2 else 0),
                   LogBrowserError, SourceRelease (browser_source_name device)])"
proof -
  from assms obtain b bs where m: "midi_data = b # bs" by (cases midi_data) auto
  show ?thesis
    unfolding m by (simp add: midi_input_callback_def Let_def)
qed

theorem midi_input_callback_never_raises_witness:
  "midi_input_callback (\<lambda>s. True) False
     \<lparr> device_name = ''MIDI Device 1'', port_name = Some ''Launchpad'',
       midi_in = Some (Opened 0), midi_out = Some (Opened 0),
       browser_source_name = ''overlay'', midi_event_name = ''midiDevice_0'' \<rparr>
     [248]
   = Inr [PrintMidiIn 248 0 0, LogBrowserError, SourceRelease ''overlay'']"
  using midi_input_callback_never_raises
    [of "[248]" "\<lambda>s. True" False
        "\<lparr> device_name = ''MIDI Device 1'', port_name = Some ''Launchpad'',
       midi_in = Some (Opened 0), midi_out = Some (Opened 0),
       browser_source_name = ''overlay'', midi_event_name = ''midiDevice_0'' \<rparr>"]
  by simp

end
